theory Spec2Isabelle
  imports Complex_Main "HOL-Library.Word"
begin

section \<open>Python values used by the audio logger\<close>

text \<open>
  Bytes are 8-bit words. A Python \<open>str\<close> is a sequence of Unicode code points, so a
  marker label is a list of natural numbers; \<open>str\<close> turns an ASCII literal of the source
  into that form. Sizes, counts and rates are natural numbers: both constructor call sites
  pass channel counts, sample widths and sample rates read from unsigned device fields, and
  \<open>len\<close> is never negative. Time stamps, the frame counter and marker positions are
  Python's unbounded integers.
\<close>

type_synonym byte = "8 word"

type_synonym pystr = "nat list"

definition str :: "string \<Rightarrow> pystr" where
  "str cs = map of_char cs"

datatype error =
    ZeroDivisionError
  | StructError
  | UnicodeEncodeError
  | ValueError pystr
  | WaveError
  | OSError

text \<open>
  Slices with non-negative bounds: \<open>xs[i:j]\<close>, the assignment \<open>xs[i:j] = ys\<close> on a
  bytearray (bounds clamp to the length, and an end before the start counts as the start),
  and \<open>xs[-n:]\<close> for \<open>n \<ge> 0\<close>, which is the whole of \<open>xs\<close> when \<open>n = 0\<close> because
  \<open>-0\<close> is \<open>0\<close>.
\<close>

definition slice :: "'a list \<Rightarrow> nat \<Rightarrow> nat \<Rightarrow> 'a list" where
  "slice xs i j = take (j - i) (drop i xs)"

definition set_slice :: "'a list \<Rightarrow> nat \<Rightarrow> nat \<Rightarrow> 'a list \<Rightarrow> 'a list" where
  "set_slice xs i j ys = take i xs @ ys @ drop (max i j) xs"

definition slice_from_neg :: "'a list \<Rightarrow> nat \<Rightarrow> 'a list" where
  "slice_from_neg xs n = (if n = 0 then xs else drop (length xs - n) xs)"

section \<open>WaveStorage (\<open>_wavestorage.py\<close>)\<close>

definition NS_PER_SEC :: nat where
  "NS_PER_SEC = 1000000000"

record WaveStorage =
  nchannels :: nat
  sampwidth :: nat
  framerate :: nat
  framesize :: nat
  maxframes :: "nat option"
  maxsize :: "nat option"
  buffer :: "byte list"
  writeidx :: nat
  nsampleswritten :: int
  perf_counter_ns :: "int option"
  markers :: "(int \<times> pystr) list"

definition WaveStorage_init :: "nat \<Rightarrow> nat \<Rightarrow> nat \<Rightarrow> nat option \<Rightarrow> WaveStorage" where
  "WaveStorage_init nch sw fr mf =
     \<lparr> nchannels = nch, sampwidth = sw, framerate = fr, framesize = sw * nch,
       maxframes = mf,
       maxsize = (case mf of None \<Rightarrow> None | Some m \<Rightarrow> Some (m * (sw * nch))),
       buffer = [], writeidx = 0, nsampleswritten = 0, perf_counter_ns = None,
       markers = [] \<rparr>"

definition remove_old_markers :: "WaveStorage \<Rightarrow> WaveStorage" where
  "remove_old_markers s =
     (case maxframes s of
        None \<Rightarrow> s
      | Some mf \<Rightarrow>
          (let firstframe = nsampleswritten s - int mf
           in s\<lparr>markers := filter (\<lambda>(pos, txt). pos \<ge> firstframe) (markers s)\<rparr>))"

definition addmarker :: "WaveStorage \<Rightarrow> pystr \<Rightarrow> WaveStorage" where
  "addmarker s txt =
     remove_old_markers (s\<lparr>markers := markers s @ [(nsampleswritten s, txt)]\<rparr>)"

definition addmarker_at_time :: "WaveStorage \<Rightarrow> int \<Rightarrow> pystr \<Rightarrow> WaveStorage" where
  "addmarker_at_time s t txt =
     (case perf_counter_ns s of
        None \<Rightarrow> addmarker s txt
      | Some anchor \<Rightarrow>
          (let time_delta_ns = t - anchor;
               sample_offset = time_delta_ns * int (framerate s) div int NS_PER_SEC
           in remove_old_markers
                (s\<lparr>markers := markers s @ [(nsampleswritten s + sample_offset, txt)]\<rparr>)))"

text \<open>
  Lines 62 to 87 of \<open>write\<close>: where the aligned data goes in the ring. \<open>space\<close> is a
  natural number here: the source only asks whether it is positive and, when it is,
  whether it covers the size, and truncated subtraction answers both as Python does.
\<close>

definition write_buffer :: "WaveStorage \<Rightarrow> byte list \<Rightarrow> WaveStorage" where
  "write_buffer s data =
     (let sz = length data in
      case maxsize s of
        None \<Rightarrow> s\<lparr>buffer := buffer s @ data\<rparr>
      | Some m \<Rightarrow>
          if sz \<ge> m then s\<lparr>buffer := slice_from_neg data m, writeidx := 0\<rparr>
          else
            (let space = m - length (buffer s) in
             if space > 0 then
               (if space \<ge> sz then s\<lparr>buffer := buffer s @ data\<rparr>
                else
                  (let remaining = sz - space;
                       grown = buffer s @ take space data
                   in s\<lparr>buffer := set_slice grown 0 remaining (drop space data),
                         writeidx := remaining\<rparr>))
             else
               (if writeidx s + sz \<le> m then
                  s\<lparr>buffer := set_slice (buffer s) (writeidx s) (writeidx s + sz) data,
                    writeidx := writeidx s + sz\<rparr>
                else
                  (let space = m - writeidx s;
                       remaining = sz - space;
                       tail = set_slice (buffer s) (writeidx s) m (take space data)
                   in s\<lparr>buffer := set_slice tail 0 remaining (drop space data),
                         writeidx := remaining\<rparr>))))"

definition MISALIGNED :: pystr where
  "MISALIGNED = str ''!WAVE MISALIGNED''"

text \<open>
  \<open>WaveStorage.write\<close> (named \<open>write_storage\<close>, since \<open>write\<close> is a keyword)
  returns the storage as the call leaves it and the exception it raised, if any:
  \<open>size % framesize\<close> raises before anything is stored when the frame size is 0, and
  the duration of a time-stamped write divides by the frame rate after the data and the
  frame counter are already updated.
\<close>

definition write_storage :: "WaveStorage \<Rightarrow> byte list \<Rightarrow> int option \<Rightarrow> error option \<times> WaveStorage" where
  "write_storage s data0 ts =
     (if framesize s = 0 then (Some ZeroDivisionError, s)
      else
        (let size0 = length data0;
             misaligned = (size0 mod framesize s \<noteq> 0);
             s1 = (if misaligned then addmarker s MISALIGNED else s);
             data = (if misaligned then take (size0 - size0 mod framesize s) data0 else data0);
             sz = length data;
             s2 = write_buffer s1 data;
             s3 = s2\<lparr>nsampleswritten := nsampleswritten s2 + int (sz div framesize s2)\<rparr>
         in case ts of
              None \<Rightarrow> (None, s3)
            | Some t \<Rightarrow>
                if framerate s3 = 0 then (Some ZeroDivisionError, s3)
                else
                  (let duration_ns = sz div framesize s3 * NS_PER_SEC div framerate s3
                   in (None, s3\<lparr>perf_counter_ns := Some (t + int duration_ns)\<rparr>))))"

text \<open>
  \<open>getbytes\<close> assigns no field; it is modelled like the other methods, as a function
  from the storage to the result and the storage afterwards.
\<close>

definition getbytes :: "WaveStorage \<Rightarrow> byte list \<times> WaveStorage" where
  "getbytes s =
     (case maxsize s of
        None \<Rightarrow> (buffer s, s)
      | Some m \<Rightarrow>
          if length (buffer s) < m then (buffer s, s)
          else (slice (buffer s) (writeidx s) m @ take (writeidx s) (buffer s), s))"

text \<open>A sequence of \<open>write\<close> calls; a caller that catches an exception goes on writing.\<close>

fun writes :: "WaveStorage \<Rightarrow> (byte list \<times> int option) list \<Rightarrow> WaveStorage" where
  "writes s [] = s"
| "writes s ((d, t) # cs) = writes (snd (write_storage s d t)) cs"

subsection \<open>\<open>struct.pack\<close> and \<open>str.encode\<close>\<close>

text \<open>
  The formats the source packs are little-endian without padding: \<open>I\<close> is an unsigned
  32-bit field, \<open>H\<close> an unsigned 16-bit field and \<open>4s\<close> four bytes. A value outside
  the range of its field raises \<open>struct.error\<close>. \<open>bytes_of\<close> is a bytes literal.
\<close>

definition bytes_of :: "string \<Rightarrow> byte list" where
  "bytes_of cs = map of_char cs"

definition le32 :: "int \<Rightarrow> byte list" where
  "le32 v = [word_of_int v, word_of_int (v div 256), word_of_int (v div 65536),
             word_of_int (v div 16777216)]"

definition le16 :: "int \<Rightarrow> byte list" where
  "le16 v = [word_of_int v, word_of_int (v div 256)]"

datatype field = U32 int | U16 int | Bytes4 "byte list"

fun pack_field :: "field \<Rightarrow> error + byte list" where
  "pack_field (U32 v) = (if 0 \<le> v \<and> v < 4294967296 then Inr (le32 v) else Inl StructError)"
| "pack_field (U16 v) = (if 0 \<le> v \<and> v < 65536 then Inr (le16 v) else Inl StructError)"
| "pack_field (Bytes4 b) = Inr (take 4 (b @ replicate 4 0))"

fun struct_pack :: "field list \<Rightarrow> error + byte list" where
  "struct_pack [] = Inr []"
| "struct_pack (f # fs) =
     (case pack_field f of
        Inl e \<Rightarrow> Inl e
      | Inr b \<Rightarrow> (case struct_pack fs of Inl e \<Rightarrow> Inl e | Inr bs \<Rightarrow> Inr (b @ bs)))"

text \<open>
  \<open>text.encode("utf-8")\<close>: one to four bytes for each code point; a surrogate
  (U+D800 to U+DFFF) raises \<open>UnicodeEncodeError\<close>. A Python \<open>str\<close> holds no code point
  above U+10FFFF.
\<close>

definition utf8_char :: "nat \<Rightarrow> error + byte list" where
  "utf8_char c =
     (if c < 128 then Inr [of_nat c]
      else if c < 2048 then Inr [of_nat (192 + c div 64), of_nat (128 + c mod 64)]
      else if 55296 \<le> c \<and> c < 57344 then Inl UnicodeEncodeError
      else if c < 65536 then
        Inr [of_nat (224 + c div 4096), of_nat (128 + c div 64 mod 64), of_nat (128 + c mod 64)]
      else
        Inr [of_nat (240 + c div 262144), of_nat (128 + c div 4096 mod 64),
             of_nat (128 + c div 64 mod 64), of_nat (128 + c mod 64)])"

fun encode_utf8 :: "pystr \<Rightarrow> error + byte list" where
  "encode_utf8 [] = Inr []"
| "encode_utf8 (c # cs) =
     (case utf8_char c of
        Inl e \<Rightarrow> Inl e
      | Inr b \<Rightarrow> (case encode_utf8 cs of Inl e \<Rightarrow> Inl e | Inr bs \<Rightarrow> Inr (b @ bs)))"

subsection \<open>\<open>WaveStorage.getwavecuedata\<close>\<close>

text \<open>
  The loop over \<open>enumerate(self._markers, start=1)\<close> (lines 106 to 129) with the two
  lists it appends to, then lines 130 to 150. The method prunes the markers first, so it
  returns the storage too.
\<close>

fun cue_loop ::
  "int \<Rightarrow> nat \<Rightarrow> (int \<times> pystr) list \<Rightarrow> byte list list \<Rightarrow> byte list list
     \<Rightarrow> error + (byte list list \<times> byte list list)" where
  "cue_loop firstframe i [] cue_points label_chunks = Inr (cue_points, label_chunks)"
| "cue_loop firstframe i ((pos, txt) # ms) cue_points label_chunks =
     (case struct_pack [U32 (int i), U32 pos, Bytes4 (bytes_of ''data''), U32 0, U32 0,
                        U32 (pos - firstframe)] of
        Inl e \<Rightarrow> Inl e
      | Inr cue_point \<Rightarrow>
          (case encode_utf8 txt of
             Inl e \<Rightarrow> Inl e
           | Inr encoded \<Rightarrow>
               (let text_bytes0 = encoded @ [0];
                    text_bytes = (if length text_bytes0 mod 2 \<noteq> 0 then text_bytes0 @ [0]
                                  else text_bytes0)
                in case struct_pack [Bytes4 (bytes_of ''labl''),
                                     U32 (4 + int (length text_bytes)), U32 (int i)] of
                     Inl e \<Rightarrow> Inl e
                   | Inr head \<Rightarrow>
                       cue_loop firstframe (i + 1) ms (cue_points @ [cue_point])
                         (label_chunks @ [head @ text_bytes]))))"

definition getwavecuedata :: "WaveStorage \<Rightarrow> (error + byte list) \<times> WaveStorage" where
  "getwavecuedata s0 =
     (let s = remove_old_markers s0;
          firstframe = (case maxframes s of
                          None \<Rightarrow> 0
                        | Some mf \<Rightarrow> max (nsampleswritten s - int mf) 0)
      in case cue_loop firstframe 1 (markers s) [] [] of
           Inl e \<Rightarrow> (Inl e, s)
         | Inr (cue_points, label_chunks) \<Rightarrow>
             (let cue_data = concat cue_points in
              case struct_pack [Bytes4 (bytes_of ''cue ''), U32 (4 + int (length cue_data)),
                                U32 (int (length cue_points))] of
                Inl e \<Rightarrow> (Inl e, s)
              | Inr cue_head \<Rightarrow>
                  (let cue_chunk = cue_head @ cue_data;
                       label_data = concat label_chunks
                   in case struct_pack [Bytes4 (bytes_of ''LIST''),
                                        U32 (4 + int (length label_data)),
                                        Bytes4 (bytes_of ''adtl'')] of
                        Inl e \<Rightarrow> (Inl e, s)
                      | Inr list_head \<Rightarrow> (Inr (cue_chunk @ list_head @ label_data), s))))"

section \<open>The stream tracker (\<open>_nvdaaudio.py\<close>)\<close>

text \<open>
  A \<open>WavePlayer\<close> is an object of the host; \<open>ident\<close> is its identity, the key of the
  dictionary \<open>_players\<close>, which is kept as an association list in insertion order. The
  module's globals are the fields of \<open>tracker\<close>. \<open>time.perf_counter()\<close> returns float
  seconds; the \<open>k\<close>-th call returns \<open>clock k\<close>, a real number, and \<open>reads\<close> counts the
  calls. \<open>call_log\<close> is the sequence of calls the module makes to the original \<open>feed\<close>,
  to the lock of an entry and to \<open>waveStorage.write\<close>, in the order it makes them.
\<close>

datatype AudioPurpose = SPEECH | SOUNDS

record WavePlayer =
  ident :: nat
  purpose :: AudioPurpose
  channels :: nat
  bitsPerSample :: nat
  samplesPerSec :: nat

record PlayerInfo =
  fileName :: string
  lastActivePerfCounter :: real
  waveStorage :: WaveStorage

datatype event =
    Fed nat "byte list option" "nat option"
  | Acquired nat
  | Wrote nat "byte list"
  | Released nat

record tracker =
  players :: "(nat \<times> PlayerInfo) list"
  player_num :: nat
  max_duration_sec :: nat
  reads :: nat
  call_log :: "event list"

definition initial_tracker :: tracker where
  "initial_tracker =
     \<lparr> players = [], player_num = 1, max_duration_sec = 30, reads = 0, call_log = [] \<rparr>"

text \<open>\<open>start\<close>: the intercepts are installed; the state it assigns is below.\<close>

definition start :: "nat \<Rightarrow> tracker \<Rightarrow> tracker" where
  "start maxd st = st\<lparr>player_num := 1, max_duration_sec := maxd\<rparr>"

definition perf_counter :: "(nat \<Rightarrow> real) \<Rightarrow> tracker \<Rightarrow> real \<times> tracker" where
  "perf_counter clock st = (clock (reads st), st\<lparr>reads := reads st + 1\<rparr>)"

definition original_feed :: "WavePlayer \<Rightarrow> byte list option \<Rightarrow> nat option \<Rightarrow> tracker \<Rightarrow> tracker" where
  "original_feed self data sz st = st\<lparr>call_log := call_log st @ [Fed (ident self) data sz]\<rparr>"

text \<open>\<open>digits\<close> is \<open>str\<close> of a number, for the file name of an entry.\<close>

fun digits :: "nat \<Rightarrow> string" where
  "digits n = (if n < 10 then [''0123456789'' ! n]
               else digits (n div 10) @ [''0123456789'' ! (n mod 10)])"

definition PlayerInfo_init :: "(nat \<Rightarrow> real) \<Rightarrow> WavePlayer \<Rightarrow> tracker \<Rightarrow> PlayerInfo \<times> tracker" where
  "PlayerInfo_init clock player st =
     (let name = ''WavePlayer '' @ digits (player_num st) @ ''.wav'';
          st1 = st\<lparr>player_num := player_num st + 1\<rparr>;
          (now, st2) = perf_counter clock st1
      in (\<lparr> fileName = name, lastActivePerfCounter = now,
            waveStorage = WaveStorage_init (channels player) (bitsPerSample player div 8)
                            (samplesPerSec player)
                            (Some (samplesPerSec player * max_duration_sec st)) \<rparr>,
          st2))"

text \<open>
  \<open>set_player\<close> is the assignment \<open>_players[k] = v\<close>; \<open>py_range stop step\<close> is
  \<open>range(0, stop, step)\<close> for a step that is not 0.
\<close>

definition set_player :: "nat \<Rightarrow> PlayerInfo \<Rightarrow> (nat \<times> PlayerInfo) list \<Rightarrow> (nat \<times> PlayerInfo) list" where
  "set_player k v ps =
     (if k \<in> fst ` set ps then map (\<lambda>(k', v'). if k' = k then (k', v) else (k', v')) ps
      else ps @ [(k, v)])"

definition py_range :: "nat \<Rightarrow> nat \<Rightarrow> nat list" where
  "py_range stop step = map (\<lambda>k. k * step) [0 ..< (stop + step - 1) div step]"

text \<open>
  The loop of lines 96 to 101 over the sub-blocks. \<open>player\<close> is the entry the loop
  holds; each change of it is a change of the entry in \<open>_players\<close>. An exception of
  \<open>write\<close> leaves the \<open>with\<close> block, which releases the lock, and ends the loop.
\<close>

fun feed_blocks ::
  "(nat \<Rightarrow> real) \<Rightarrow> WavePlayer \<Rightarrow> PlayerInfo \<Rightarrow> byte list list \<Rightarrow> tracker
     \<Rightarrow> error option \<times> tracker" where
  "feed_blocks clock self player [] st = (None, st)"
| "feed_blocks clock self player (block # rest) st =
     (let st1 = original_feed self (Some block) (Some (length block)) st;
          st2 = st1\<lparr>call_log := call_log st1 @ [Acquired (ident self), Wrote (ident self) block]\<rparr>;
          (err, ws) = write_storage (waveStorage player) block None
      in case err of
           Some e \<Rightarrow>
             (Some e,
              st2\<lparr>players := set_player (ident self) (player\<lparr>waveStorage := ws\<rparr>) (players st2),
                  call_log := call_log st2 @ [Released (ident self)]\<rparr>)
         | None \<Rightarrow>
             (let (now, st3) = perf_counter clock st2;
                  player' = player\<lparr>waveStorage := ws, lastActivePerfCounter := now\<rparr>;
                  st4 = st3\<lparr>players := set_player (ident self) player' (players st3),
                            call_log := call_log st3 @ [Released (ident self)]\<rparr>
              in feed_blocks clock self player' rest st4))"

text \<open>Lines 103 to 106: the entries the sweep leaves in \<open>_players\<close>.\<close>

definition sweep :: "real \<Rightarrow> nat \<Rightarrow> (nat \<times> PlayerInfo) list \<Rightarrow> (nat \<times> PlayerInfo) list" where
  "sweep now maxd ps =
     filter (\<lambda>(k, v). \<not> (lastActivePerfCounter v - now > real maxd)) ps"

definition get_player :: "(nat \<Rightarrow> real) \<Rightarrow> WavePlayer \<Rightarrow> tracker \<Rightarrow> PlayerInfo \<times> tracker" where
  "get_player clock self st =
     (case map_of (players st) (ident self) of
        Some p \<Rightarrow> (p, st)
      | None \<Rightarrow>
          (let (p, st') = PlayerInfo_init clock self st
           in (p, st'\<lparr>players := set_player (ident self) p (players st')\<rparr>)))"

definition player_feed ::
  "(nat \<Rightarrow> real) \<Rightarrow> WavePlayer \<Rightarrow> byte list option \<Rightarrow> nat option \<Rightarrow> tracker
     \<Rightarrow> error option \<times> tracker" where
  "player_feed clock self data sz st =
     (if purpose self \<noteq> SPEECH then (None, original_feed self data sz st)
      else
        (let d = (case sz of None \<Rightarrow> data | Some n \<Rightarrow> map_option (take n) data) in
         if d = None \<or> d = Some [] then (None, original_feed self data sz st)
         else
           (let (player, st1) = get_player clock self st;
                framesize = channels self * bitsPerSample self div 8;
                maxblocksize = framesize * samplesPerSec self div 5;
                size1 = (case sz of None \<Rightarrow> length (the d) | Some n \<Rightarrow> n)
            in if maxblocksize = 0
               then (Some (ValueError (str ''range() arg 3 must not be zero'')), st1)
               else
                 (let (err, st2) =
                        feed_blocks clock self player
                          (map (\<lambda>i. slice (the d) i (i + maxblocksize))
                             (py_range size1 maxblocksize)) st1
                  in if err \<noteq> None then (err, st2)
                     else
                       (let (now, st3) = perf_counter clock st2
                        in (None,
                            st3\<lparr>players :=
                                  sweep now (max_duration_sec st3) (players st3)\<rparr>))))))"

section \<open>Saving a recording (\<open>savetofile\<close>)\<close>

text \<open>
  A file system is the content of each file and the set of paths that cannot be opened
  for writing; \<open>open(path, "wb")\<close> raises \<open>OSError\<close> on such a path and leaves an
  empty file at any other. \<open>write_at\<close> is \<open>f.seek(pos)\<close> followed by \<open>f.write(data)\<close>.
\<close>

record filesystem =
  files :: "string \<Rightarrow> byte list option"
  denied :: "string \<Rightarrow> bool"

definition write_at :: "byte list \<Rightarrow> nat \<Rightarrow> byte list \<Rightarrow> byte list" where
  "write_at content pos data =
     take pos (content @ replicate (pos - length content) 0) @ data
       @ drop (pos + length data) content"

text \<open>
  The \<open>wave\<close> module of the standard library is a parameter of \<open>savetofile\<close>: a writer
  maps the channel count, the sample width, the frame rate and the frames to the
  exception it raises, if any, and to the bytes it leaves in the file. \<open>wave_write\<close> is
  the writer of CPython 3.11: \<open>wave.Error\<close> for a parameter it refuses, and a 44-byte
  PCM header before the frames.
\<close>

type_synonym wave_writer = "nat \<Rightarrow> nat \<Rightarrow> nat \<Rightarrow> byte list \<Rightarrow> error option \<times> byte list"

definition wave_header :: "nat \<Rightarrow> nat \<Rightarrow> nat \<Rightarrow> nat \<Rightarrow> error + byte list" where
  "wave_header nch sw fr datalength =
     struct_pack [U32 (36 + int datalength), Bytes4 (bytes_of ''WAVE''),
                  Bytes4 (bytes_of ''fmt ''), U32 16, U16 1, U16 (int nch), U32 (int fr),
                  U32 (int (nch * fr * sw)), U16 (int (nch * sw)), U16 (int (sw * 8)),
                  Bytes4 (bytes_of ''data''), U32 (int datalength)]"

definition wave_write :: wave_writer where
  "wave_write nch sw fr frames =
     (if nch < 1 \<or> sw < 1 \<or> 4 < sw \<or> fr = 0 then (Some WaveError, [])
      else
        (let datalength = length frames div (nch * sw) * nch * sw
         in case wave_header nch sw fr datalength of
              Inl e \<Rightarrow> (Some e, bytes_of ''RIFFRIFF'')
            | Inr header \<Rightarrow>
                (if datalength = length frames then (None, bytes_of ''RIFF'' @ header @ frames)
                 else
                   (case wave_header nch sw fr (length frames) of
                      Inl e \<Rightarrow> (Some e, bytes_of ''RIFF'' @ header @ frames)
                    | Inr patched \<Rightarrow> (None, bytes_of ''RIFF'' @ patched @ frames)))))"

text \<open>
  \<open>WaveStorage.savetofile\<close> (\<open>_wavestorage.py\<close>, lines 152 to 164): the result is the
  exception raised, if any, the storage and the file system afterwards.
\<close>

definition savetofile ::
  "wave_writer \<Rightarrow> WaveStorage \<Rightarrow> filesystem \<Rightarrow> string
     \<Rightarrow> error option \<times> WaveStorage \<times> filesystem" where
  "savetofile wave s fs path =
     (if denied fs path then (Some OSError, s, fs)
      else
        (let (frames, s1) = getbytes s;
             (err, written) = wave (nchannels s1) (sampwidth s1) (framerate s1) frames;
             fs1 = fs\<lparr>files := (files fs)(path \<mapsto> written)\<rparr>
         in if err \<noteq> None then (err, s1, fs1)
            else
              (case getwavecuedata s1 of
                 (Inl e, s2) \<Rightarrow> (Some e, s2, fs1)
               | (Inr cuedata, s2) \<Rightarrow>
                   (let written2 = written @ cuedata;
                        filesize = length written2
                    in case struct_pack [U32 (int filesize - 8)] of
                         Inl e \<Rightarrow> (Some e, s2, fs\<lparr>files := (files fs)(path \<mapsto> written2)\<rparr>)
                       | Inr packed \<Rightarrow>
                           (None, s2,
                            fs\<lparr>files := (files fs)(path \<mapsto> write_at written2 4 packed)\<rparr>)))))"

text \<open>
  The recorder of \<open>_sysaudio.py\<close>, as far as saving reads it: \<open>_wavestorage\<close> is
  \<open>None\<close> from \<open>__init__\<close> and \<open>reset\<close> until the capture device is opened.
  \<open>recorder_savetofile\<close> is \<open>SystemAudioRecorder.savetofile\<close> (lines 165 to 169).
\<close>

record SystemAudioRecorder =
  recorder_max_duration_sec :: nat
  wavestorage :: "WaveStorage option"

definition SystemAudioRecorder_init :: "nat \<Rightarrow> SystemAudioRecorder" where
  "SystemAudioRecorder_init maxd = \<lparr> recorder_max_duration_sec = maxd, wavestorage = None \<rparr>"

definition reset :: "SystemAudioRecorder \<Rightarrow> SystemAudioRecorder" where
  "reset r = r\<lparr>wavestorage := None\<rparr>"

definition recorder_savetofile ::
  "wave_writer \<Rightarrow> SystemAudioRecorder \<Rightarrow> filesystem \<Rightarrow> string
     \<Rightarrow> error option \<times> SystemAudioRecorder \<times> filesystem" where
  "recorder_savetofile wave r fs path =
     (case wavestorage r of
        None \<Rightarrow> (Some (ValueError (str ''No wave storage'')), r, fs)
      | Some ws \<Rightarrow>
          (let (err, ws', fs') = savetofile wave ws fs path
           in (err, r\<lparr>wavestorage := Some ws'\<rparr>, fs')))"

section \<open>Notions used to state the properties\<close>

text \<open>
  \<open>lastn n xs\<close> is the last \<open>n\<close> elements of \<open>xs\<close> (all of it when it is shorter),
  \<open>aligned fs d\<close> the whole frames of a block, \<open>stream fs calls\<close> the audio a sequence
  of \<open>write\<close> calls was given, without the partial frames, and \<open>frames_of\<close> its length
  in frames. \<open>ring_ok s hist\<close> relates the ring of a storage to the audio written so far.
\<close>

definition lastn :: "nat \<Rightarrow> 'a list \<Rightarrow> 'a list" where
  "lastn n xs = drop (length xs - n) xs"

definition aligned :: "nat \<Rightarrow> 'a list \<Rightarrow> 'a list" where
  "aligned fs d = take (length d - length d mod fs) d"

definition stream :: "nat \<Rightarrow> (byte list \<times> int option) list \<Rightarrow> byte list" where
  "stream fs calls = concat (map (\<lambda>(d, t). aligned fs d) calls)"

definition ring_ok :: "WaveStorage \<Rightarrow> byte list \<Rightarrow> bool" where
  "ring_ok s hist =
     (case maxsize s of
        None \<Rightarrow> buffer s = hist
      | Some m \<Rightarrow>
          writeidx s \<le> m \<and>
          (if length (buffer s) < m then writeidx s = 0 \<and> buffer s = hist
           else (m = 0 \<or> length (buffer s) = m) \<and> m \<le> length hist \<and>
                drop (writeidx s) (take m (buffer s)) @ take (writeidx s) (buffer s) = lastn m hist))"

text \<open>Where \<open>write\<close> puts the data, with the marker of a misaligned block.\<close>

definition stored :: "WaveStorage \<Rightarrow> byte list \<Rightarrow> WaveStorage" where
  "stored s d =
     write_buffer (if length d mod framesize s \<noteq> 0 then addmarker s MISALIGNED else s)
       (aligned (framesize s) d)"

definition frames_of :: "nat \<Rightarrow> (byte list \<times> int option) list \<Rightarrow> nat" where
  "frames_of fs calls = sum_list (map (\<lambda>(d, t). length d div fs) calls)"

text \<open>
  \<open>full_ring\<close> is a 4-byte ring that two writes have filled, with the cursor at 2.
  \<open>keeps s\<close> is the test of \<open>_remove_old_markers\<close>: the markers it retains.
\<close>

definition full_ring :: WaveStorage where
  "full_ring = writes (WaveStorage_init 1 1 4 (Some 4)) [([1, 2, 3, 4], None), ([5, 6], None)]"

definition keeps :: "WaveStorage \<Rightarrow> int \<times> pystr \<Rightarrow> bool" where
  "keeps s = (\<lambda>(pos, txt). case maxframes s of None \<Rightarrow> True
                | Some mf \<Rightarrow> nsampleswritten s - int mf \<le> pos)"

text \<open>
  \<open>timeline_ok\<close> is the marker timeline invariant of the data model: every position
  is 0 or above and the positions are non-decreasing in insertion order. \<open>appends_ok s p\<close>
  says that a marker at \<open>p\<close> can follow the markers that pruning retains: \<open>p\<close> is not
  negative and none of them lies above it. \<open>anchored\<close> is a storage of one minute at
  48 kHz after a time-stamped write of two frames and a marker, \<open>anchored1000\<close> one after
  a marker and a time-stamped write of 1000 frames, and \<open>half_full\<close> a ring of three
  frames that holds two.
\<close>

definition timeline_ok :: "(int \<times> pystr) list \<Rightarrow> bool" where
  "timeline_ok ms = (list_all (\<lambda>(pos, txt). 0 \<le> pos) ms \<and> sorted (map fst ms))"

definition appends_ok :: "WaveStorage \<Rightarrow> int \<Rightarrow> bool" where
  "appends_ok s p =
     (0 \<le> p \<and> list_all (\<lambda>(pos, txt). pos \<le> p) (filter (keeps s) (markers s)))"


definition anchored :: WaveStorage where
  "anchored =
     addmarker
       (snd (write_storage (WaveStorage_init 1 2 48000 (Some 2880000)) [0, 0, 0, 0]
              (Some 5000000000)))
       (str ''a'')"

definition anchored1000 :: WaveStorage where
  "anchored1000 =
     snd (write_storage (addmarker (WaveStorage_init 1 2 48000 (Some 2880000)) (str ''a''))
            (replicate 2000 0) (Some 5000000000))"

definition half_full :: WaveStorage where
  "half_full = writes (WaveStorage_init 1 2 4 (Some 3)) [([1, 2, 3, 4], None)]"

text \<open>
  The bytes \<open>getwavecuedata\<close> is to produce, written without the loop:
  \<open>numbered_markers\<close> are the retained markers with their 1-based ids,
  \<open>first_retained\<close> is the first frame still in the ring, \<open>cue_point_bytes\<close> and
  \<open>labl_bytes\<close> are one cue point and one \<open>labl\<close> sub-chunk, \<open>pad_label\<close> ends a
  label with NUL and pads it to an even length, and \<open>cue_fits\<close> says that every field
  fits its 32 bits and every label can be encoded. \<open>cue_example\<close> is a storage of two
  frames with a marker that four written frames have left behind.
\<close>

definition pad_label :: "byte list \<Rightarrow> byte list" where
  "pad_label enc = (if even (length enc) then enc @ [0, 0] else enc @ [0])"

definition utf8 :: "pystr \<Rightarrow> byte list" where
  "utf8 txt = (case encode_utf8 txt of Inl e \<Rightarrow> [] | Inr enc \<Rightarrow> enc)"

definition u32 :: "int \<Rightarrow> bool" where
  "u32 v = (0 \<le> v \<and> v < 4294967296)"

definition cue_point_bytes :: "int \<Rightarrow> nat \<times> int \<times> pystr \<Rightarrow> byte list" where
  "cue_point_bytes firstframe = (\<lambda>(i, pos, txt).
     le32 (int i) @ le32 pos @ bytes_of ''data'' @ le32 0 @ le32 0 @ le32 (pos - firstframe))"

definition labl_bytes :: "nat \<times> int \<times> pystr \<Rightarrow> byte list" where
  "labl_bytes = (\<lambda>(i, pos, txt).
     bytes_of ''labl'' @ le32 (4 + int (length (pad_label (utf8 txt)))) @ le32 (int i)
       @ pad_label (utf8 txt))"

definition marker_fits :: "int \<Rightarrow> nat \<times> int \<times> pystr \<Rightarrow> bool" where
  "marker_fits firstframe = (\<lambda>(i, pos, txt).
     u32 (int i) \<and> u32 pos \<and> u32 (pos - firstframe) \<and>
     (case encode_utf8 txt of Inl e \<Rightarrow> False
      | Inr enc \<Rightarrow> u32 (4 + int (length (pad_label enc)))))"

definition first_retained :: "WaveStorage \<Rightarrow> int" where
  "first_retained s =
     (case maxframes s of None \<Rightarrow> 0 | Some mf \<Rightarrow> max (nsampleswritten s - int mf) 0)"

definition cue_fits :: "int \<Rightarrow> (nat \<times> int \<times> pystr) list \<Rightarrow> bool" where
  "cue_fits firstframe ims =
     (list_all (marker_fits firstframe) ims \<and>
      u32 (4 + int (length (concat (map (cue_point_bytes firstframe) ims)))) \<and>
      u32 (int (length ims)) \<and>
      u32 (4 + int (length (concat (map labl_bytes ims)))))"


definition numbered_markers :: "WaveStorage \<Rightarrow> (nat \<times> int \<times> pystr) list" where
  "numbered_markers s = List.enumerate 1 (filter (keeps s) (markers s))"

definition cue_chunk_bytes :: "WaveStorage \<Rightarrow> byte list" where
  "cue_chunk_bytes s =
     bytes_of ''cue '' @ le32 (4 + 24 * int (length (numbered_markers s)))
       @ le32 (int (length (numbered_markers s)))
       @ concat (map (cue_point_bytes (first_retained s)) (numbered_markers s))"

definition list_chunk_bytes :: "WaveStorage \<Rightarrow> byte list" where
  "list_chunk_bytes s =
     bytes_of ''LIST'' @ le32 (4 + int (length (concat (map labl_bytes (numbered_markers s)))))
       @ bytes_of ''adtl'' @ concat (map labl_bytes (numbered_markers s))"

definition cue_example :: WaveStorage where
  "cue_example =
     snd (write_storage
       (addmarker
         (snd (write_storage (addmarker (WaveStorage_init 1 2 4 (Some 2)) (str ''a''))
                [1, 2, 3, 4] None))
         (str ''bc''))
       [5, 6, 7, 8] None)"

text \<open>
  A session of the tracker: \<open>start(80)\<close>, the retention the plugin passes, then six
  bytes from one speech stream and, more than 1000 seconds later on the clock
  \<open>clock_jump\<close>, two bytes from another.
\<close>

definition speech_player :: "nat \<Rightarrow> WavePlayer" where
  "speech_player k = \<lparr> ident = k, purpose = SPEECH, channels = 1, bitsPerSample = 16, samplesPerSec = 10 \<rparr>"

definition clock_jump :: "nat \<Rightarrow> real" where
  "clock_jump n = (if n < 4 then real n else 1000 + real n)"

definition two_feeds :: tracker where
  "two_feeds =
     snd (player_feed clock_jump (speech_player 8) (Some [7, 8]) None
       (snd (player_feed clock_jump (speech_player 7) (Some [1, 2, 3, 4, 5, 6]) None
              (start 80 initial_tracker))))"

text \<open>
  \<open>one_locked\<close> is a file system without files where \<open>/locked.wav\<close> cannot be opened;
  \<open>capturing\<close> is the recorder of the plugin with \<open>cue_example\<close> as its storage.
\<close>

definition one_locked :: filesystem where
  "one_locked = \<lparr> files = (\<lambda>f. None), denied = (\<lambda>f. f = ''/locked.wav'') \<rparr>"

definition capturing :: SystemAudioRecorder where
  "capturing = (SystemAudioRecorder_init 60)\<lparr>wavestorage := Some cue_example\<rparr>"

section \<open>Lemmas about the ring\<close>

lemma write_buffer_frame [simp]:
  "maxsize (write_buffer s d) = maxsize s"
  "framesize (write_buffer s d) = framesize s"
  "framerate (write_buffer s d) = framerate s"
  "maxframes (write_buffer s d) = maxframes s"
  "nsampleswritten (write_buffer s d) = nsampleswritten s"
  "markers (write_buffer s d) = markers s"
  "perf_counter_ns (write_buffer s d) = perf_counter_ns s"
  by (simp_all add: write_buffer_def Let_def split: option.split)

lemma ring_ok_unbounded:
  "maxsize s = None \<Longrightarrow> ring_ok s hist \<Longrightarrow> ring_ok (write_buffer s d) (hist @ d)"
  by (simp add: ring_ok_def write_buffer_def)

lemma ring_ok_whole:
  assumes "maxsize s = Some m" "m \<le> length d"
  shows "ring_ok (write_buffer s d) (hist @ d)"
  using assms
  by (auto simp: ring_ok_def write_buffer_def slice_from_neg_def lastn_def)

lemma ring_ok_grow:
  assumes "maxsize s = Some m" "length d < m" "length (buffer s) < m"
      "length d \<le> m - length (buffer s)" "ring_ok s hist"
  shows "ring_ok (write_buffer s d) (hist @ d)"
  using assms
  by (auto simp: ring_ok_def write_buffer_def lastn_def)

lemma ring_ok_grow_wrap:
  assumes "maxsize s = Some m" "length d < m" "length (buffer s) < m"
      "\<not> length d \<le> m - length (buffer s)" "ring_ok s hist"
  shows "ring_ok (write_buffer s d) (hist @ d)"
  using assms
  by (auto simp: ring_ok_def write_buffer_def lastn_def set_slice_def Let_def min_def add.commute)

lemma lastn_append:
  "m \<le> length hist \<Longrightarrow> lastn m (hist @ d) = drop (length d) (lastn m hist @ d)"
  by (simp add: lastn_def add.commute)

lemma ring_ok_over:
  assumes "maxsize s = Some m" "length d < m" "\<not> length (buffer s) < m"
      "writeidx s + length d \<le> m" "ring_ok s hist"
  shows "ring_ok (write_buffer s d) (hist @ d)"
proof -
  let ?b = "buffer s" and ?w = "writeidx s"
  from assms have len: "length ?b = m" and w: "?w \<le> m"
    and c: "drop ?w ?b @ take ?w ?b = lastn m hist" and h: "m \<le> length hist"
    by (auto simp: ring_ok_def split: if_splits)
  have b': "buffer (write_buffer s d) = take ?w ?b @ d @ drop (?w + length d) ?b"
    and w': "writeidx (write_buffer s d) = ?w + length d"
    using assms len by (auto simp: write_buffer_def set_slice_def Let_def)
  have "lastn m (hist @ d) = drop (length d) (lastn m hist @ d)"
    using h by (rule lastn_append)
  also have "\<dots> = drop (?w + length d) ?b @ take ?w ?b @ d"
    using assms(4) len by (simp add: c [symmetric] add.commute)
  finally have "lastn m (hist @ d) = drop (?w + length d) ?b @ take ?w ?b @ d" .
  moreover have lb: "length (buffer (write_buffer s d)) = m"
    using assms(4) len w by (simp add: b')
  moreover have "drop (?w + length d) (take m (buffer (write_buffer s d)))
      @ take (?w + length d) (buffer (write_buffer s d))
      = drop (?w + length d) ?b @ take ?w ?b @ d"
    using assms(4) len w by (simp add: lb) (simp add: b')
  ultimately show ?thesis
    using assms(1,4) h by (simp add: ring_ok_def w')
qed

lemma ring_ok_over_wrap:
  assumes "maxsize s = Some m" "length d < m" "\<not> length (buffer s) < m"
      "\<not> writeidx s + length d \<le> m" "ring_ok s hist"
  shows "ring_ok (write_buffer s d) (hist @ d)"
proof -
  let ?b = "buffer s" and ?w = "writeidx s"
  let ?sp = "m - ?w" and ?r = "length d - (m - ?w)"
  from assms have len: "length ?b = m" and w: "?w \<le> m"
    and c: "drop ?w ?b @ take ?w ?b = lastn m hist" and h: "m \<le> length hist"
    by (auto simp: ring_ok_def split: if_splits)
  have r: "?r < ?w" "?r \<le> m" using assms w by auto
  have b': "buffer (write_buffer s d) = drop ?sp d @ drop ?r (take ?w ?b @ take ?sp d)"
    and w': "writeidx (write_buffer s d) = ?r"
    using assms len by (auto simp: write_buffer_def set_slice_def Let_def)
  have "lastn m (hist @ d) = drop (length d) (lastn m hist @ d)"
    using h by (rule lastn_append)
  also have "\<dots> = drop ?r (take ?w ?b) @ d"
    using assms len w by (simp add: c [symmetric])
  finally have "lastn m (hist @ d) = drop ?r (take ?w ?b) @ d" .
  moreover have lb: "length (buffer (write_buffer s d)) = m"
    using assms(2,4) len w r by (simp add: b')
  moreover have "drop ?r (take m (buffer (write_buffer s d))) @ take ?r (buffer (write_buffer s d))
      = drop ?r (take ?w ?b) @ d"
    using assms(2,4) len w r by (simp add: lb) (simp add: b')
  ultimately show ?thesis
    using assms(1) h r by (simp add: ring_ok_def w')
qed

lemma ring_ok_write_buffer:
  assumes "ring_ok s hist"
  shows "ring_ok (write_buffer s d) (hist @ d)"
proof (cases "maxsize s")
  case None
  then show ?thesis using assms by (rule ring_ok_unbounded)
next
  case (Some m)
  consider "m \<le> length d"
    | "length d < m" "length (buffer s) < m" "length d \<le> m - length (buffer s)"
    | "length d < m" "length (buffer s) < m" "\<not> length d \<le> m - length (buffer s)"
    | "length d < m" "\<not> length (buffer s) < m" "writeidx s + length d \<le> m"
    | "length d < m" "\<not> length (buffer s) < m" "\<not> writeidx s + length d \<le> m"
    by linarith
  then show ?thesis
  proof cases
    case 1 with Some show ?thesis by (rule ring_ok_whole)
  next
    case 2 with Some assms show ?thesis by (simp add: ring_ok_grow)
  next
    case 3 with Some assms show ?thesis by (simp add: ring_ok_grow_wrap)
  next
    case 4 with Some assms show ?thesis by (simp add: ring_ok_over)
  next
    case 5 with Some assms show ?thesis by (simp add: ring_ok_over_wrap)
  qed
qed

lemma ring_ok_fields:
  "maxsize s' = maxsize s \<Longrightarrow> buffer s' = buffer s \<Longrightarrow> writeidx s' = writeidx s
   \<Longrightarrow> ring_ok s' hist = ring_ok s hist"
  by (cases "maxsize s") (simp_all add: ring_ok_def)

lemma remove_old_markers_frame [simp]:
  "maxsize (remove_old_markers s) = maxsize s"
  "framesize (remove_old_markers s) = framesize s"
  "framerate (remove_old_markers s) = framerate s"
  "maxframes (remove_old_markers s) = maxframes s"
  "nsampleswritten (remove_old_markers s) = nsampleswritten s"
  "buffer (remove_old_markers s) = buffer s"
  "writeidx (remove_old_markers s) = writeidx s"
  "perf_counter_ns (remove_old_markers s) = perf_counter_ns s"
  by (simp_all add: remove_old_markers_def Let_def split: option.split)

lemma addmarker_frame [simp]:
  "maxsize (addmarker s x) = maxsize s"
  "framesize (addmarker s x) = framesize s"
  "framerate (addmarker s x) = framerate s"
  "maxframes (addmarker s x) = maxframes s"
  "nsampleswritten (addmarker s x) = nsampleswritten s"
  "buffer (addmarker s x) = buffer s"
  "writeidx (addmarker s x) = writeidx s"
  "perf_counter_ns (addmarker s x) = perf_counter_ns s"
  by (simp_all add: addmarker_def)

lemma aligned_div: "(n - n mod k) div k = n div (k::nat)"
  by (simp add: minus_mod_eq_div_mult)

lemma write_storage_fields:
  assumes "0 < framesize s"
  shows "buffer (snd (write_storage s d t)) = buffer (stored s d)"
    and "writeidx (snd (write_storage s d t)) = writeidx (stored s d)"
    and "maxsize (snd (write_storage s d t)) = maxsize s"
    and "maxframes (snd (write_storage s d t)) = maxframes s"
    and "framesize (snd (write_storage s d t)) = framesize s"
    and "framerate (snd (write_storage s d t)) = framerate s"
    and "markers (snd (write_storage s d t)) = markers (stored s d)"
    and "nsampleswritten (snd (write_storage s d t)) =
          nsampleswritten s + int (length d div framesize s)"
  using assms
  by (simp_all add: write_storage_def stored_def aligned_def aligned_div Let_def split: option.split)

lemma ring_ok_stored:
  assumes "ring_ok s hist"
  shows "ring_ok (stored s d) (hist @ aligned (framesize s) d)"
proof -
  let ?s1 = "if length d mod framesize s \<noteq> 0 then addmarker s MISALIGNED else s"
  have "ring_ok ?s1 hist = ring_ok s hist"
    by (rule ring_ok_fields) simp_all
  with assms have "ring_ok ?s1 hist" by simp
  then show ?thesis
    unfolding stored_def by (rule ring_ok_write_buffer)
qed

lemma ring_ok_write_storage:
  assumes "ring_ok s hist" "0 < framesize s"
  shows "ring_ok (snd (write_storage s d t)) (hist @ aligned (framesize s) d)"
proof -
  have "ring_ok (snd (write_storage s d t)) (hist @ aligned (framesize s) d)
      = ring_ok (stored s d) (hist @ aligned (framesize s) d)"
    using assms(2) by (intro ring_ok_fields) (simp_all add: write_storage_fields stored_def)
  with ring_ok_stored [OF assms(1)] show ?thesis by simp
qed

lemma ring_ok_writes:
  assumes "ring_ok s hist" "0 < framesize s"
  shows "ring_ok (writes s calls) (hist @ stream (framesize s) calls)"
  using assms
proof (induction calls arbitrary: s hist)
  case Nil
  then show ?case by (simp add: stream_def)
next
  case (Cons c calls)
  obtain d t where c: "c = (d, t)" by (cases c)
  let ?s' = "snd (write_storage s d t)"
  have fs: "framesize ?s' = framesize s"
    using Cons.prems(2) by (simp add: write_storage_fields)
  have "ring_ok ?s' (hist @ aligned (framesize s) d)"
    using Cons.prems by (rule ring_ok_write_storage)
  then have "ring_ok (writes ?s' calls) ((hist @ aligned (framesize s) d) @ stream (framesize ?s') calls)"
    using Cons.prems(2) fs by (intro Cons.IH) simp_all
  then show ?case by (simp add: c fs stream_def)
qed

lemma ring_ok_init: "ring_ok (WaveStorage_init nch sw fr mf) []"
  by (cases mf) (simp_all add: ring_ok_def WaveStorage_init_def lastn_def)

lemma ring_ok_getbytes:
  assumes "ring_ok s hist"
  shows "fst (getbytes s) = (case maxsize s of None \<Rightarrow> hist | Some m \<Rightarrow> lastn m hist)"
proof (cases "maxsize s")
  case None
  with assms show ?thesis by (simp add: ring_ok_def getbytes_def)
next
  case (Some m)
  show ?thesis
  proof (cases "length (buffer s) < m")
    case True
    with Some assms show ?thesis by (simp add: ring_ok_def getbytes_def lastn_def)
  next
    case False
    with Some assms have "slice (buffer s) (writeidx s) m = drop (writeidx s) (take m (buffer s))"
      by (simp add: slice_def drop_take)
    with False Some assms show ?thesis by (simp add: ring_ok_def getbytes_def)
  qed
qed

lemma write_storage_zero:
  "framesize s = 0 \<Longrightarrow> write_storage s d t = (Some ZeroDivisionError, s)"
  by (simp add: write_storage_def)

lemma write_storage_keeps:
  "framesize (snd (write_storage s d t)) = framesize s"
  "maxsize (snd (write_storage s d t)) = maxsize s"
  "maxframes (snd (write_storage s d t)) = maxframes s"
  "nsampleswritten (snd (write_storage s d t)) = nsampleswritten s + int (length d div framesize s)"
  by (cases "framesize s = 0"; simp add: write_storage_zero write_storage_fields)+

lemma writes_fields:
  "framesize (writes s calls) = framesize s"
  "maxsize (writes s calls) = maxsize s"
  "maxframes (writes s calls) = maxframes s"
  by (induction s calls rule: writes.induct; simp add: write_storage_keeps)+

lemma writes_counter:
  "nsampleswritten (writes s calls) = nsampleswritten s + int (frames_of (framesize s) calls)"
  by (induction s calls rule: writes.induct) (simp_all add: frames_of_def write_storage_keeps)

lemma length_aligned: "length (aligned fs d) = fs * (length d div fs)"
  by (simp add: aligned_def minus_mod_eq_mult_div)

lemma length_stream: "length (stream fs calls) = fs * frames_of fs calls"
  by (induction calls) (auto simp: stream_def frames_of_def length_aligned distrib_left)

lemma writes_zero: "framesize s = 0 \<Longrightarrow> writes s calls = s"
  by (induction s calls rule: writes.induct) (simp_all add: write_storage_zero)

lemma getbytes_writes_init:
  assumes "0 < sw * nch"
  shows "fst (getbytes (writes (WaveStorage_init nch sw fr mf) calls)) =
     (case mf of None \<Rightarrow> stream (sw * nch) calls
      | Some c \<Rightarrow> lastn (c * (sw * nch)) (stream (sw * nch) calls))"
proof -
  let ?s0 = "WaveStorage_init nch sw fr mf"
  have fs: "framesize ?s0 = sw * nch" by (simp add: WaveStorage_init_def)
  have "ring_ok (writes ?s0 calls) ([] @ stream (framesize ?s0) calls)"
    using ring_ok_init assms by (intro ring_ok_writes) (simp_all add: fs)
  then have "fst (getbytes (writes ?s0 calls)) =
      (case maxsize (writes ?s0 calls) of None \<Rightarrow> stream (sw * nch) calls
       | Some m \<Rightarrow> lastn m (stream (sw * nch) calls))"
    using ring_ok_getbytes by (simp add: fs)
  then show ?thesis
    by (cases mf) (simp_all add: writes_fields WaveStorage_init_def)
qed

lemma aligned_id: "length d mod fs = 0 \<Longrightarrow> aligned fs d = d"
  by (simp add: aligned_def)

lemmas storage_eval = WaveStorage_init_def write_storage_def write_buffer_def set_slice_def
  slice_from_neg_def slice_def getbytes_def addmarker_def addmarker_at_time_def
  remove_old_markers_def MISALIGNED_def str_def NS_PER_SEC_def lastn_def aligned_def
  stream_def frames_of_def Let_def

lemma write_buffer_full_fit:
  assumes "maxsize s = Some m" "length (buffer s) = m" "length d < m" "writeidx s + length d \<le> m"
  shows "buffer (write_buffer s d) = take (writeidx s) (buffer s) @ d @ drop (writeidx s + length d) (buffer s)"
    and "writeidx (write_buffer s d) = writeidx s + length d"
  using assms by (auto simp: write_buffer_def set_slice_def Let_def)

lemma write_buffer_full_wrap:
  assumes "maxsize s = Some m" "length (buffer s) = m" "length d < m"
    "\<not> writeidx s + length d \<le> m" "writeidx s \<le> m"
  shows "buffer (write_buffer s d) =
           drop (m - writeidx s) d
           @ drop (writeidx s + length d - m) (take (writeidx s) (buffer s))
           @ take (m - writeidx s) d"
    and "writeidx (write_buffer s d) = writeidx s + length d - m"
  using assms by (auto simp: write_buffer_def set_slice_def Let_def add.commute)

lemma write_storage_aligned:
  assumes "0 < framesize s" "length d mod framesize s = 0"
  shows "buffer (snd (write_storage s d t)) = buffer (write_buffer s d)"
    and "writeidx (snd (write_storage s d t)) = writeidx (write_buffer s d)"
    and "markers (snd (write_storage s d t)) = markers s"
  using assms by (simp_all add: write_storage_fields stored_def aligned_id)

lemma markers_remove_old: "markers (remove_old_markers s) = filter (keeps s) (markers s)"
  by (cases "maxframes s") (simp_all add: remove_old_markers_def keeps_def)

lemma keeps_update [simp]: "keeps (s\<lparr>markers := ms\<rparr>) = keeps s"
  by (cases "maxframes s") (simp_all add: keeps_def)

lemma markers_addmarker:
  "markers (addmarker s x) = filter (keeps s) (markers s) @ [(nsampleswritten s, x)]"
  by (simp add: addmarker_def markers_remove_old) (simp add: keeps_def split: option.split)

lemma markers_addmarker_at_time:
  "perf_counter_ns s = Some a \<Longrightarrow>
   markers (addmarker_at_time s t x) =
     filter (keeps s)
       (markers s @ [(nsampleswritten s + (t - a) * int (framerate s) div 1000000000, x)])"
  by (simp add: addmarker_at_time_def Let_def markers_remove_old NS_PER_SEC_def)

lemma addmarker_at_time_frame [simp]:
  "nsampleswritten (addmarker_at_time s t x) = nsampleswritten s"
  by (simp add: addmarker_at_time_def Let_def split: option.split)

lemma timeline_ok_filter: "timeline_ok ms \<Longrightarrow> timeline_ok (filter P ms)"
  by (simp add: timeline_ok_def sorted_filter list_all_iff)

lemma timeline_ok_snoc:
  "timeline_ok (ms @ [(p, x)]) =
     (timeline_ok ms \<and> 0 \<le> p \<and> list_all (\<lambda>(pos, txt). pos \<le> p) ms)"
  by (auto simp: timeline_ok_def sorted_append list_all_iff)

lemma timeline_ok_append_pruned:
  assumes "timeline_ok (markers s)"
  shows "timeline_ok (filter (keeps s) (markers s @ [(p, x)]))
           = (\<not> keeps s (p, x) \<or> appends_ok s p)"
proof -
  have k: "timeline_ok (filter (keeps s) (markers s))"
    using assms by (rule timeline_ok_filter)
  show ?thesis
  proof (cases "keeps s (p, x)")
    case True
    then show ?thesis using k by (simp add: timeline_ok_snoc appends_ok_def)
  next
    case False
    then show ?thesis using k by simp
  qed
qed

lemma keeps_counter: "keeps s (nsampleswritten s, x)"
  by (cases "maxframes s") (simp_all add: keeps_def)

lemma markers_addmarker_filter:
  "markers (addmarker s x) = filter (keeps s) (markers s @ [(nsampleswritten s, x)])"
  by (simp add: markers_addmarker keeps_counter)

lemma timeline_addmarker:
  assumes "timeline_ok (markers s)"
  shows "timeline_ok (markers (addmarker s x)) = appends_ok s (nsampleswritten s)"
  using timeline_ok_append_pruned [OF assms, of "nsampleswritten s" x]
  by (simp add: markers_addmarker_filter keeps_counter)

lemma markers_write_storage:
  "markers (snd (write_storage s d t)) =
     (if 0 < framesize s \<and> length d mod framesize s \<noteq> 0
      then markers (addmarker s MISALIGNED) else markers s)"
  by (cases "framesize s = 0") (simp_all add: write_storage_zero write_storage_fields stored_def)

lemma anchored1000_fields:
  "markers anchored1000 = [(0, str ''a'')]"
  "nsampleswritten anchored1000 = 1000"
  "perf_counter_ns anchored1000 = Some 5020833333"
  "framerate anchored1000 = 48000"
  "maxframes anchored1000 = Some 2880000"
  by (simp_all add: anchored1000_def storage_eval del: str_def)

lemma write_storage_error:
  "fst (write_storage s d t) =
     (if framesize s = 0 \<or> (framerate s = 0 \<and> t \<noteq> None) then Some ZeroDivisionError else None)"
  by (cases t) (simp_all add: write_storage_def Let_def)


lemma pack_bytes4:
  "pack_field (Bytes4 (bytes_of [a, b, c, d])) = Inr (bytes_of [a, b, c, d])"
  by (simp add: bytes_of_def)

lemmas pack_simps = pack_field.simps(1,2) pack_bytes4 struct_pack.simps

lemma pack_cue_point:
  "struct_pack [U32 a, U32 b, Bytes4 (bytes_of ''data''), U32 0, U32 0, U32 c] =
     (if u32 a \<and> u32 b \<and> u32 c
      then Inr (le32 a @ le32 b @ bytes_of ''data'' @ le32 0 @ le32 0 @ le32 c)
      else Inl StructError)"
  by (simp only: pack_simps u32_def) simp

lemma pack_head:
  "struct_pack [Bytes4 (bytes_of ''labl''), U32 a, U32 b] =
     (if u32 a \<and> u32 b then Inr (bytes_of ''labl'' @ le32 a @ le32 b) else Inl StructError)"
  "struct_pack [Bytes4 (bytes_of ''cue ''), U32 a, U32 b] =
     (if u32 a \<and> u32 b then Inr (bytes_of ''cue '' @ le32 a @ le32 b) else Inl StructError)"
  "struct_pack [Bytes4 (bytes_of ''LIST''), U32 a, Bytes4 (bytes_of ''adtl'')] =
     (if u32 a then Inr (bytes_of ''LIST'' @ le32 a @ bytes_of ''adtl'') else Inl StructError)"
  by (simp_all only: pack_simps u32_def) simp_all

lemma label_pad:
  "(if length (enc @ [0]) mod 2 \<noteq> 0 then (enc @ [0]) @ [0] else enc @ [0]) = pad_label enc"
  by (cases "even (length enc)"; simp add: pad_label_def; presburger)

lemma cue_loop_step:
  "cue_loop ff i ((pos, txt) # ms) cps lcs =
     (if marker_fits ff (i, pos, txt)
      then cue_loop ff (Suc i) ms (cps @ [cue_point_bytes ff (i, pos, txt)])
             (lcs @ [labl_bytes (i, pos, txt)])
      else Inl (if u32 (int i) \<and> u32 pos \<and> u32 (pos - ff)
                then (case encode_utf8 txt of Inl e \<Rightarrow> e | Inr enc \<Rightarrow> StructError)
                else StructError))"
  apply (simp only: cue_loop.simps Let_def label_pad pack_cue_point pack_head)
  apply (cases "encode_utf8 txt")
   apply (simp_all only: marker_fits_def cue_point_bytes_def labl_bytes_def utf8_def prod.case sum.case if_True if_False Suc_eq_plus1 split: if_split)
  apply auto
  done


lemma cue_loop_fits:
  "list_all (marker_fits ff) (List.enumerate i ms) \<Longrightarrow>
   cue_loop ff i ms cps lcs =
     Inr (cps @ map (cue_point_bytes ff) (List.enumerate i ms),
          lcs @ map labl_bytes (List.enumerate i ms))"
proof (induction ms arbitrary: i cps lcs)
  case Nil
  then show ?case by simp
next
  case (Cons m ms)
  obtain pos lbl where m: "m = (pos, lbl)" by (cases m)
  from Cons.prems have "marker_fits ff (i, pos, lbl)"
    and "list_all (marker_fits ff) (List.enumerate (Suc i) ms)"
    by (simp_all add: m)
  then show ?case
    by (simp add: m cue_loop_step Cons.IH del: cue_loop.simps)
qed

lemma cue_loop_fails:
  "\<not> list_all (marker_fits ff) (List.enumerate i ms) \<Longrightarrow> isl (cue_loop ff i ms cps lcs)"
proof (induction ms arbitrary: i cps lcs)
  case Nil
  then show ?case by simp
next
  case (Cons m ms)
  obtain pos lbl where m: "m = (pos, lbl)" by (cases m)
  show ?case
  proof (cases "marker_fits ff (i, pos, lbl)")
    case True
    with Cons.prems have "\<not> list_all (marker_fits ff) (List.enumerate (Suc i) ms)"
      by (simp add: m)
    then have "isl (cue_loop ff (Suc i) ms (cps @ [cue_point_bytes ff (i, pos, lbl)])
        (lcs @ [labl_bytes (i, pos, lbl)]))"
      by (rule Cons.IH)
    with True show ?thesis by (simp add: m cue_loop_step del: cue_loop.simps)
  next
    case False
    then show ?thesis by (simp add: m cue_loop_step del: cue_loop.simps)
  qed
qed


lemma length_le32 [simp]: "length (le32 v) = 4"
  by (simp add: le32_def)

lemma length_cue_point [simp]: "length (cue_point_bytes ff m) = 24"
  by (cases m) (simp add: cue_point_bytes_def bytes_of_def)

lemma length_cue_points:
  "length (concat (map (cue_point_bytes ff) ims)) = 24 * length ims"
  by (induction ims) simp_all

lemma getwavecuedata_state: "snd (getwavecuedata s) = remove_old_markers s"
  by (simp add: getwavecuedata_def Let_def split: sum.split prod.split)

lemma first_retained_pruned: "first_retained (remove_old_markers s) = first_retained s"
  by (cases "maxframes s") (simp_all add: first_retained_def)

lemma getwavecuedata_fits:
  assumes "cue_fits (first_retained s) (numbered_markers s)"
  shows "fst (getwavecuedata s) = Inr (cue_chunk_bytes s @ list_chunk_bytes s)"
proof -
  let ?ff = "first_retained s" and ?ims = "numbered_markers s"
  from assms have fits: "list_all (marker_fits ?ff) ?ims"
    and a: "u32 (4 + int (length (concat (map (cue_point_bytes ?ff) ?ims))))"
    and b: "u32 (int (length ?ims))"
    and c: "u32 (4 + int (length (concat (map labl_bytes ?ims))))"
    by (simp_all add: cue_fits_def)
  have loop: "cue_loop ?ff 1 (markers (remove_old_markers s)) [] [] =
      Inr (map (cue_point_bytes ?ff) ?ims, map labl_bytes ?ims)"
    using cue_loop_fits [of ?ff 1 "filter (keeps s) (markers s)" "[]" "[]"] fits
    by (simp add: numbered_markers_def markers_remove_old)
  have ff: "(case maxframes (remove_old_markers s) of None \<Rightarrow> 0
       | Some mf \<Rightarrow> max (nsampleswritten (remove_old_markers s) - int mf) 0) = ?ff"
    by (cases "maxframes s") (simp_all add: first_retained_def)
  have "fst (getwavecuedata s) =
      fst (case Inr (map (cue_point_bytes ?ff) ?ims, map labl_bytes ?ims) of
             Inl e \<Rightarrow> (Inl e, remove_old_markers s)
           | Inr (cue_points, label_chunks) \<Rightarrow>
               (case struct_pack [Bytes4 (bytes_of ''cue ''),
                                  U32 (4 + int (length (concat cue_points))),
                                  U32 (int (length cue_points))] of
                  Inl e \<Rightarrow> (Inl e, remove_old_markers s)
                | Inr cue_head \<Rightarrow>
                    (case struct_pack [Bytes4 (bytes_of ''LIST''),
                                       U32 (4 + int (length (concat label_chunks))),
                                       Bytes4 (bytes_of ''adtl'')] of
                       Inl e \<Rightarrow> (Inl e, remove_old_markers s)
                     | Inr list_head \<Rightarrow>
                         (Inr ((cue_head @ concat cue_points) @ list_head @ concat label_chunks),
                          remove_old_markers s))))"
    by (simp only: getwavecuedata_def Let_def ff loop)
  then show ?thesis
    using a b c
    by (simp add: pack_head cue_chunk_bytes_def list_chunk_bytes_def length_cue_points
        del: struct_pack.simps pack_field.simps)
qed

lemma getwavecuedata_fails:
  assumes "\<not> cue_fits (first_retained s) (numbered_markers s)"
  shows "isl (fst (getwavecuedata s))"
proof -
  let ?ff = "first_retained s" and ?ims = "numbered_markers s"
  have ff: "(case maxframes (remove_old_markers s) of None \<Rightarrow> 0
       | Some mf \<Rightarrow> max (nsampleswritten (remove_old_markers s) - int mf) 0) = ?ff"
    by (cases "maxframes s") (simp_all add: first_retained_def)
  show ?thesis
  proof (cases "list_all (marker_fits ?ff) ?ims")
    case False
    then have "isl (cue_loop ?ff 1 (markers (remove_old_markers s)) [] [])"
      using cue_loop_fails [of ?ff 1 "filter (keeps s) (markers s)" "[]" "[]"]
      by (simp add: numbered_markers_def markers_remove_old)
    then obtain e where "cue_loop ?ff 1 (markers (remove_old_markers s)) [] [] = Inl e"
      by (cases "cue_loop ?ff 1 (markers (remove_old_markers s)) [] []") simp_all
    then have "fst (getwavecuedata s) = Inl e"
      by (simp only: getwavecuedata_def Let_def ff sum.case fst_conv)
    then show ?thesis by simp
  next
    case True
    then have loop: "cue_loop ?ff 1 (markers (remove_old_markers s)) [] [] =
        Inr (map (cue_point_bytes ?ff) ?ims, map labl_bytes ?ims)"
      using cue_loop_fits [of ?ff 1 "filter (keeps s) (markers s)" "[]" "[]"]
      by (simp add: numbered_markers_def markers_remove_old)
    from True assms have "\<not> (u32 (4 + int (length (concat (map (cue_point_bytes ?ff) ?ims))))
        \<and> u32 (int (length ?ims))
        \<and> u32 (4 + int (length (concat (map labl_bytes ?ims)))))"
      by (simp add: cue_fits_def)
    moreover have "fst (getwavecuedata s) =
        fst (case struct_pack [Bytes4 (bytes_of ''cue ''),
                       U32 (4 + int (length (concat (map (cue_point_bytes ?ff) ?ims)))),
                       U32 (int (length (map (cue_point_bytes ?ff) ?ims)))] of
               Inl e \<Rightarrow> (Inl e, remove_old_markers s)
             | Inr cue_head \<Rightarrow>
                 (case struct_pack [Bytes4 (bytes_of ''LIST''),
                                    U32 (4 + int (length (concat (map labl_bytes ?ims)))),
                                    Bytes4 (bytes_of ''adtl'')] of
                    Inl e \<Rightarrow> (Inl e, remove_old_markers s)
                  | Inr list_head \<Rightarrow>
                      (Inr ((cue_head @ concat (map (cue_point_bytes ?ff) ?ims)) @ list_head
                            @ concat (map labl_bytes ?ims)),
                       remove_old_markers s)))"
      by (simp only: getwavecuedata_def Let_def ff loop sum.case prod.case)
    ultimately show ?thesis
      by (auto simp: pack_head simp del: struct_pack.simps pack_field.simps)
  qed
qed

lemma cue_example_fields:
  "markers cue_example = [(0, str ''a''), (2, str ''bc'')]"
  "nsampleswritten cue_example = 4"
  "maxframes cue_example = Some 2"
  by (simp_all add: cue_example_def storage_eval del: str_def)

lemma length_bytes_of [simp]: "length (bytes_of cs) = length cs"
  by (simp add: bytes_of_def)

lemma utf8_examples:
  "encode_utf8 [97] = Inr [97]"
  "encode_utf8 [233] = Inr [195, 169]"
  "encode_utf8 [8364] = Inr [226, 130, 172]"
  "encode_utf8 [128512] = Inr [240, 159, 152, 128]"
  "encode_utf8 [55357] = Inl UnicodeEncodeError"
  by (simp_all add: utf8_char_def)

lemmas tracker_eval = player_feed_def get_player_def feed_blocks.simps perf_counter_def original_feed_def
  PlayerInfo_init_def set_player_def py_range_def sweep_def start_def initial_tracker_def speech_player_def
  clock_jump_def

lemma sweep_keeps:
  "list_all (\<lambda>(k, v). lastActivePerfCounter v \<le> now) ps \<Longrightarrow> sweep now maxd ps = ps"
  by (induction ps) (auto simp: sweep_def)

lemma save_cue_example:
  "savetofile wave_write cue_example one_locked ''out.wav'' =
     (None, snd (getwavecuedata cue_example),
      one_locked\<lparr>files := (files one_locked)(''out.wav'' \<mapsto>
        bytes_of ''RIFF'' @ [104, 0, 0, 0] @ bytes_of ''WAVE''
        @ bytes_of ''fmt '' @ [16, 0, 0, 0] @ [1, 0] @ [1, 0] @ [4, 0, 0, 0] @ [8, 0, 0, 0]
        @ [2, 0] @ [16, 0]
        @ bytes_of ''data'' @ [4, 0, 0, 0] @ [5, 6, 7, 8]
        @ bytes_of ''cue '' @ [28, 0, 0, 0] @ [1, 0, 0, 0]
        @ [1, 0, 0, 0] @ [2, 0, 0, 0] @ bytes_of ''data'' @ [0, 0, 0, 0] @ [0, 0, 0, 0]
        @ [0, 0, 0, 0]
        @ bytes_of ''LIST'' @ [20, 0, 0, 0] @ bytes_of ''adtl''
        @ bytes_of ''labl'' @ [8, 0, 0, 0] @ [1, 0, 0, 0] @ [98, 99, 0, 0])\<rparr>)"
  by (simp add: savetofile_def one_locked_def wave_write_def wave_header_def cue_example_def
      storage_eval getwavecuedata_def bytes_of_def utf8_char_def le16_def le32_def write_at_def)

section \<open>The claims\<close>

subsection \<open>C10: the length of \<open>getbytes\<close> follows the frame counter\<close>

text \<open>
  Claim C10. After any sequence of \<open>write\<close> calls on a newly constructed storage, the
  length of \<open>getbytes()\<close> is \<open>framesize * nsampleswritten\<close> when the storage is
  unbounded and \<open>framesize * min nsampleswritten maxframes\<close> when it is bounded; the
  counter is the number of whole frames the calls carried; and \<open>getbytes\<close> leaves the
  storage as it found it. Calls that raise are part of the sequence.
\<close>

theorem C10_getbytes_length:
  "length (fst (getbytes (writes (WaveStorage_init nch sw fr mf) calls))) =
     (case mf of
        None \<Rightarrow> sw * nch * nat (nsampleswritten (writes (WaveStorage_init nch sw fr mf) calls))
      | Some c \<Rightarrow>
          sw * nch * min (nat (nsampleswritten (writes (WaveStorage_init nch sw fr mf) calls))) c)
   \<and> nsampleswritten (writes (WaveStorage_init nch sw fr mf) calls)
       = int (frames_of (sw * nch) calls)
   \<and> snd (getbytes s) = s"
proof -
  let ?s0 = "WaveStorage_init nch sw fr mf"
  have fs: "framesize ?s0 = sw * nch" and n0: "nsampleswritten ?s0 = 0"
    by (simp_all add: WaveStorage_init_def)
  have n: "nsampleswritten (writes ?s0 calls) = int (frames_of (sw * nch) calls)"
    using writes_counter [of ?s0 calls] by (simp add: fs n0)
  have pure: "snd (getbytes s) = s"
    by (simp add: getbytes_def split: option.split)
  have len: "length (fst (getbytes (writes ?s0 calls))) =
     (case mf of None \<Rightarrow> sw * nch * frames_of (sw * nch) calls
      | Some c \<Rightarrow> sw * nch * min (frames_of (sw * nch) calls) c)"
  proof (cases "sw * nch = 0")
    case True
    then have "writes ?s0 calls = ?s0" by (intro writes_zero) (simp add: fs)
    with True show ?thesis
      by (cases mf) (auto simp: getbytes_def WaveStorage_init_def slice_def)
  next
    case False
    then have "0 < sw * nch" by simp
    from getbytes_writes_init [OF this] show ?thesis
      by (cases mf) (simp_all add: length_stream lastn_def min_def mult.commute)
  qed
  from len n pure show ?thesis by (cases mf) simp_all
qed

theorem C10_getbytes_length_witness:
  "length (fst (getbytes (writes (WaveStorage_init 1 2 4 (Some 2)) [([1,2,3,4,5,6,7], None)]))) = 4
   \<and> nsampleswritten (writes (WaveStorage_init 1 2 4 (Some 2)) [([1,2,3,4,5,6,7], None)]) = 3"
  using C10_getbytes_length [where nch = 1 and sw = 2 and fr = 4 and mf = "Some 2"
      and calls = "[([1,2,3,4,5,6,7], None)]"]
  by (simp add: frames_of_def)

subsection \<open>C2: the ring keeps the last frames in order\<close>



subsection \<open>C7: a write into a full ring\<close>

text \<open>
  Claim C7 says that a frame-aligned write of \<open>s\<close> bytes, fewer than the capacity, into a
  full ring leaves the cursor at \<open>(old cursor + s) mod capacity\<close>, a value strictly below
  the capacity. The source tests \<open>writeidx + size <= maxsize\<close>, so a write that ends
  exactly at the end of the ring leaves the cursor at the capacity, not at 0.
\<close>

theorem C7_cursor_counterexample:
  "maxsize full_ring = Some 4 \<and> length (buffer full_ring) = 4 \<and> writeidx full_ring = 2
   \<and> framesize full_ring = 1
   \<and> writeidx (snd (write_storage full_ring [7, 8] None)) = 4
   \<and> writeidx (snd (write_storage full_ring [7, 8] None)) \<noteq> (writeidx full_ring + 2) mod 4
   \<and> \<not> writeidx (snd (write_storage full_ring [7, 8] None)) < 4"
  by (simp add: full_ring_def storage_eval)

text \<open>
  Claim C7 as amended. A frame-aligned write of fewer bytes than the capacity into a full
  ring whose cursor is at most the capacity stores byte \<open>i\<close> of the data at offset
  \<open>(writeidx + i) mod maxsize\<close> and leaves every other byte of the ring as it was; the
  new cursor is \<open>writeidx + size\<close> when that is at most the capacity and
  \<open>writeidx + size - maxsize\<close> otherwise, so it is at most the capacity (and equal to it
  when the write ends at the end of the ring) and congruent to \<open>writeidx + size\<close> modulo
  the capacity.
\<close>

theorem C7_full_ring_write:
  assumes "maxsize s = Some m" and "length (buffer s) = m" and "writeidx s \<le> m"
    and "0 < framesize s" and "length d mod framesize s = 0" and "length d < m"
  shows "writeidx (snd (write_storage s d t)) =
           (if writeidx s + length d \<le> m then writeidx s + length d
            else writeidx s + length d - m)
       \<and> writeidx (snd (write_storage s d t)) \<le> m
       \<and> writeidx (snd (write_storage s d t)) mod m = (writeidx s + length d) mod m
       \<and> length (buffer (snd (write_storage s d t))) = m
       \<and> (\<forall>i<length d. buffer (snd (write_storage s d t)) ! ((writeidx s + i) mod m) = d ! i)
       \<and> (\<forall>j<m. (if writeidx s + length d \<le> m then j < writeidx s \<or> writeidx s + length d \<le> j
                   else writeidx s + length d - m \<le> j \<and> j < writeidx s)
               \<longrightarrow> buffer (snd (write_storage s d t)) ! j = buffer s ! j)"
proof (cases "writeidx s + length d \<le> m")
  case True
  let ?w = "writeidx s" and ?b = "buffer s"
  have b: "buffer (snd (write_storage s d t)) = take ?w ?b @ d @ drop (?w + length d) ?b"
    and w: "writeidx (snd (write_storage s d t)) = ?w + length d"
    using assms True by (simp_all add: write_storage_aligned write_buffer_full_fit)
  have 1: "length (buffer (snd (write_storage s d t))) = m"
    using assms True by (simp add: b)
  have 2: "buffer (snd (write_storage s d t)) ! ((?w + i) mod m) = d ! i" if "i < length d" for i
    using that assms True by (simp add: b nth_append)
  have 3: "buffer (snd (write_storage s d t)) ! j = ?b ! j"
    if "j < m" "j < ?w \<or> ?w + length d \<le> j" for j
    using that assms True by (auto simp: b nth_append)
  show ?thesis using True 1 2 3 by (simp add: w)
next
  case False
  let ?w = "writeidx s" and ?b = "buffer s"
  have b: "buffer (snd (write_storage s d t)) =
      drop (m - ?w) d @ drop (?w + length d - m) (take ?w ?b) @ take (m - ?w) d"
    and w: "writeidx (snd (write_storage s d t)) = ?w + length d - m"
    using assms False by (simp_all add: write_storage_aligned write_buffer_full_wrap)
  have 1: "length (buffer (snd (write_storage s d t))) = m"
    using assms False by (simp add: b)
  let ?A = "drop (m - ?w) d" and ?B = "drop (?w + length d - m) (take ?w ?b)"
  let ?C = "take (m - ?w) d"
  have lA: "length ?A = ?w + length d - m" and lAB: "length (?A @ ?B) = ?w"
    using assms False by simp_all
  have 2: "buffer (snd (write_storage s d t)) ! ((?w + i) mod m) = d ! i" if "i < length d" for i
  proof (cases "?w + i < m")
    case True
    have "((?A @ ?B) @ ?C) ! (length (?A @ ?B) + i) = ?C ! i"
      by (rule nth_append_length_plus)
    then have "buffer (snd (write_storage s d t)) ! (?w + i) = ?C ! i"
      by (simp only: lAB b append_assoc)
    then show ?thesis using True by simp
  next
    case ge: False
    then have m: "(?w + i) mod m = ?w + i - m"
      using that assms by (simp add: le_mod_geq)
    have "?w + i - m < length ?A" using ge that lA by simp
    then have "(?A @ ?B @ ?C) ! (?w + i - m) = ?A ! (?w + i - m)"
      by (simp only: nth_append if_True)
    also have "\<dots> = d ! i" using ge that assms by simp
    finally show ?thesis by (simp only: b m)
  qed
  have 3: "buffer (snd (write_storage s d t)) ! j = ?b ! j"
    if "j < m" "?w + length d - m \<le> j" "j < ?w" for j
  proof -
    have "j < length (?A @ ?B)" using that lAB by simp
    then have "((?A @ ?B) @ ?C) ! j = (?A @ ?B) ! j"
      by (simp only: nth_append if_True)
    also have "\<dots> = ?B ! (j - length ?A)"
      using that lA by (simp add: nth_append)
    also have "\<dots> = ?b ! j"
      using that assms False lA by simp
    finally show ?thesis by (simp only: b append_assoc)
  qed
  have 4: "(?w + length d - m) mod m = (?w + length d) mod m"
    using False by (simp add: le_mod_geq)
  show ?thesis using False 1 2 3 4 assms by (simp add: w)
qed

theorem C7_full_ring_write_witness:
  "writeidx (snd (write_storage full_ring [7, 8, 9] None)) = 1
   \<and> buffer (snd (write_storage full_ring [7, 8, 9] None)) ! 0 = 9
   \<and> buffer (snd (write_storage full_ring [7, 8, 9] None)) ! 1 = buffer full_ring ! 1"
proof -
  have pre: "maxsize full_ring = Some 4" "length (buffer full_ring) = 4" "writeidx full_ring \<le> 4"
    "0 < framesize full_ring" "length [7, 8, 9 :: byte] mod framesize full_ring = 0"
    "length [7, 8, 9 :: byte] < 4" "writeidx full_ring = 2"
    by (simp_all add: full_ring_def storage_eval)
  note h = C7_full_ring_write [where s = full_ring and m = 4 and d = "[7, 8, 9]" and t = None,
      OF pre(1) pre(2) pre(3) pre(4) pre(5) pre(6)]
  from h have a: "writeidx (snd (write_storage full_ring [7, 8, 9] None)) = 1"
    by (simp add: pre(7))
  from h have "\<forall>i<length [7, 8, 9 :: byte].
      buffer (snd (write_storage full_ring [7, 8, 9] None)) ! ((writeidx full_ring + i) mod 4)
        = [7, 8, 9] ! i"
    by blast
  then have "buffer (snd (write_storage full_ring [7, 8, 9] None)) ! ((writeidx full_ring + 2) mod 4)
        = [7, 8, 9] ! 2"
    by (rule allE [of _ 2]) simp
  then have b: "buffer (snd (write_storage full_ring [7, 8, 9] None)) ! 0 = 9"
    by (simp add: pre(7))
  from h have "\<forall>j<4. (if writeidx full_ring + length [7, 8, 9 :: byte] \<le> 4
        then j < writeidx full_ring \<or> writeidx full_ring + length [7, 8, 9 :: byte] \<le> j
        else writeidx full_ring + length [7, 8, 9 :: byte] - 4 \<le> j \<and> j < writeidx full_ring)
      \<longrightarrow> buffer (snd (write_storage full_ring [7, 8, 9] None)) ! j = buffer full_ring ! j"
    by blast
  then have c: "buffer (snd (write_storage full_ring [7, 8, 9] None)) ! 1 = buffer full_ring ! 1"
    by (rule allE [of _ 1]) (simp add: pre(7))
  from a b c show ?thesis by simp
qed

subsection \<open>C3: a misaligned write\<close>

text \<open>
  Claim C3 says that a write of \<open>framesize * n + r\<close> bytes with \<open>0 < r < framesize\<close>
  stores the first \<open>n\<close> frames, adds \<open>n\<close> to the frame counter, inserts one marker
  \<open>!WAVE MISALIGNED\<close> at the old value of the counter, and does not fail. The write
  divides by the frame rate when it is given a time stamp (line 90), so on a storage whose
  frame rate is 0 it raises \<open>ZeroDivisionError\<close>.
\<close>

theorem C3_zero_rate_counterexample:
  "(0::nat) < 1 \<and> 1 < framesize (WaveStorage_init 1 2 0 None)
   \<and> length [1, 2, 3, 4, 5 :: byte] = framesize (WaveStorage_init 1 2 0 None) * 2 + 1
   \<and> fst (write_storage (WaveStorage_init 1 2 0 None) [1, 2, 3, 4, 5] (Some 7))
       = Some ZeroDivisionError"
  by (simp add: storage_eval)

text \<open>
  Claim C3 as amended. Let \<open>hist\<close> be the audio the ring of a storage stands for
  (\<open>ring_ok\<close>, which the constructor establishes and every write keeps). A write of
  \<open>framesize * n + r\<close> bytes with \<open>0 < r < framesize\<close> stores exactly the first \<open>n\<close>
  frames: afterwards the ring stands for \<open>hist\<close> followed by those frames, and
  \<open>getbytes\<close> is that audio on an unbounded storage and its last \<open>maxsize\<close> bytes on a
  bounded one. The frame counter grows by exactly \<open>n\<close>, and one marker
  \<open>!WAVE MISALIGNED\<close> at the old value of the counter follows the markers that pruning
  retains. The write raises only when it is given a time stamp and the frame rate is 0,
  after the frames and the marker are stored; the misalignment never makes it fail.
\<close>

theorem C3_misaligned_write:
  assumes "0 < r" and "r < framesize s" and "length d = framesize s * n + r"
    and "ring_ok s hist"
  shows "fst (write_storage s d t)
           = (if framerate s = 0 \<and> t \<noteq> None then Some ZeroDivisionError else None)
       \<and> nsampleswritten (snd (write_storage s d t)) = nsampleswritten s + int n
       \<and> ring_ok (snd (write_storage s d t)) (hist @ take (framesize s * n) d)
       \<and> fst (getbytes (snd (write_storage s d t)))
           = (case maxsize s of
                None \<Rightarrow> hist @ take (framesize s * n) d
              | Some m \<Rightarrow> lastn m (hist @ take (framesize s * n) d))
       \<and> buffer (snd (write_storage s d t)) = buffer (write_buffer s (take (framesize s * n) d))
       \<and> writeidx (snd (write_storage s d t))
           = writeidx (write_buffer s (take (framesize s * n) d))
       \<and> markers (snd (write_storage s d t))
           = filter (keeps s) (markers s) @ [(nsampleswritten s, MISALIGNED)]"
proof -
  let ?fs = "framesize s"
  let ?p = "take (?fs * n) d"
  have fs: "0 < ?fs" using assms by simp
  have md: "length d mod ?fs = r" and dv: "length d div ?fs = n"
    using assms by simp_all
  have al: "aligned ?fs d = ?p"
    using assms by (simp add: aligned_def md)
  have err: "fst (write_storage s d t)
      = (if framerate s = 0 \<and> t \<noteq> None then Some ZeroDivisionError else None)"
    using fs by (simp add: write_storage_error)
  have cnt: "nsampleswritten (snd (write_storage s d t)) = nsampleswritten s + int n"
    using fs by (simp add: write_storage_fields dv)
  have ring: "ring_ok (snd (write_storage s d t)) (hist @ ?p)"
    using ring_ok_write_storage [OF assms(4) fs, of d t] by (simp add: al)
  have get: "fst (getbytes (snd (write_storage s d t)))
      = (case maxsize s of None \<Rightarrow> hist @ ?p | Some m \<Rightarrow> lastn m (hist @ ?p))"
    using ring_ok_getbytes [OF ring] fs by (simp add: write_storage_fields)
  have st: "stored s d = write_buffer (addmarker s MISALIGNED) ?p"
    using assms by (simp add: stored_def md al)
  have same: "buffer (write_buffer (addmarker s MISALIGNED) ?p) = buffer (write_buffer s ?p)"
      "writeidx (write_buffer (addmarker s MISALIGNED) ?p) = writeidx (write_buffer s ?p)"
    by (simp_all add: write_buffer_def Let_def split: option.split)
  have buf: "buffer (snd (write_storage s d t)) = buffer (write_buffer s ?p)"
    and idx: "writeidx (snd (write_storage s d t)) = writeidx (write_buffer s ?p)"
    using fs by (simp_all add: write_storage_fields st same)
  have mk: "markers (snd (write_storage s d t))
      = filter (keeps s) (markers s) @ [(nsampleswritten s, MISALIGNED)]"
    using fs by (simp add: write_storage_fields st markers_addmarker)
  from err cnt ring get buf idx mk show ?thesis by simp
qed

theorem C3_misaligned_write_witness:
  "fst (write_storage half_full [5, 6, 7, 8, 9] (Some 7)) = None
   \<and> nsampleswritten (snd (write_storage half_full [5, 6, 7, 8, 9] (Some 7))) = 4
   \<and> fst (getbytes (snd (write_storage half_full [5, 6, 7, 8, 9] (Some 7))))
       = [3, 4, 5, 6, 7, 8]
   \<and> markers (snd (write_storage half_full [5, 6, 7, 8, 9] (Some 7))) = [(2, MISALIGNED)]"
proof -
  have ring: "ring_ok half_full [1, 2, 3, 4]"
    using ring_ok_writes [OF ring_ok_init, of 1 2 4 "Some 3" "[([1, 2, 3, 4], None)]"]
    by (simp add: half_full_def WaveStorage_init_def stream_def aligned_def)
  have f: "framesize half_full = 2" "maxsize half_full = Some 6" "framerate half_full = 4"
      "nsampleswritten half_full = 2" "markers half_full = []"
    by (simp_all add: half_full_def storage_eval)
  have pre: "0 < (1::nat)" "1 < framesize half_full"
      "length [5, 6, 7, 8, 9 :: byte] = framesize half_full * 2 + 1"
    by (simp_all add: f)
  from C3_misaligned_write [OF pre ring, of "Some 7"] show ?thesis
    by (simp add: f lastn_def)
qed


subsection \<open>C5: markers placed by time\<close>

text \<open>
  Claim C5. Without an anchor \<open>addmarker_at_time\<close> is \<open>addmarker\<close>. With an anchor it
  appends a marker at \<open>nsampleswritten + (t - anchor) * framerate // NS_PER_SEC\<close>, in
  integer arithmetic that rounds down, and prunes; at 48000 frames a second a request
  10 ms after the anchor lands at \<open>nsampleswritten + 480\<close>. A time-stamped write that
  does not raise sets the anchor to the time stamp plus the duration of the frames it
  wrote, \<open>frames * NS_PER_SEC // framerate\<close>; a write without a time stamp leaves it.
\<close>

theorem C5_marker_at_time:
  "(perf_counter_ns s = None \<longrightarrow> addmarker_at_time s t x = addmarker s x)
   \<and> (perf_counter_ns s = Some a \<longrightarrow>
        addmarker_at_time s t x =
          remove_old_markers
            (s\<lparr>markers := markers s
                 @ [(nsampleswritten s + (t - a) * int (framerate s) div 1000000000, x)]\<rparr>))
   \<and> (perf_counter_ns s = Some a \<and> framerate s = 48000 \<longrightarrow>
        markers (addmarker_at_time s (a + 10000000) x)
          = filter (keeps s) (markers s) @ [(nsampleswritten s + 480, x)])
   \<and> (0 < framesize s \<and> 0 < framerate s \<longrightarrow>
        fst (write_storage s d (Some t)) = None \<and>
        perf_counter_ns (snd (write_storage s d (Some t)))
          = Some (t + int (length d div framesize s * 1000000000 div framerate s)))
   \<and> perf_counter_ns (snd (write_storage s d None)) = perf_counter_ns s"
proof -
  have 1: "addmarker_at_time s t x = addmarker s x" if "perf_counter_ns s = None"
    using that by (simp add: addmarker_at_time_def)
  have 2: "addmarker_at_time s t x =
      remove_old_markers
        (s\<lparr>markers := markers s
             @ [(nsampleswritten s + (t - a) * int (framerate s) div 1000000000, x)]\<rparr>)"
    if "perf_counter_ns s = Some a"
    using that by (simp add: addmarker_at_time_def Let_def NS_PER_SEC_def)
  have 3: "markers (addmarker_at_time s (a + 10000000) x)
      = filter (keeps s) (markers s) @ [(nsampleswritten s + 480, x)]"
    if "perf_counter_ns s = Some a" "framerate s = 48000"
    using that by (simp add: markers_addmarker_at_time) (simp add: keeps_def split: option.split)
  have 4: "fst (write_storage s d (Some t)) = None \<and>
        perf_counter_ns (snd (write_storage s d (Some t)))
          = Some (t + int (length d div framesize s * 1000000000 div framerate s))"
    if "0 < framesize s" "0 < framerate s"
    using that by (simp add: write_storage_def Let_def NS_PER_SEC_def aligned_div)
  have 5: "perf_counter_ns (snd (write_storage s d None)) = perf_counter_ns s"
    by (simp add: write_storage_def Let_def)
  from 1 2 3 4 5 show ?thesis by blast
qed

theorem C5_marker_at_time_witness:
  "markers (addmarker_at_time
      (snd (write_storage (WaveStorage_init 2 2 48000 (Some 2880000)) [1, 2, 3, 4, 5, 6, 7, 8] (Some 1000)))
      10042666 (str ''x''))
    = [(482, str ''x'')]"
proof -
  let ?i = "WaveStorage_init 2 2 48000 (Some 2880000)"
  let ?w = "snd (write_storage ?i [1, 2, 3, 4, 5, 6, 7, 8] (Some 1000))"
  have pre: "0 < framesize ?i \<and> 0 < framerate ?i"
    by (simp add: WaveStorage_init_def)
  have "perf_counter_ns ?w = Some (1000 + int (length [1, 2, 3, 4, 5, 6, 7, 8 :: byte] div framesize ?i
      * 1000000000 div framerate ?i))"
    using C5_marker_at_time [where s = ?i and d = "[1, 2, 3, 4, 5, 6, 7, 8]" and t = 1000] pre by blast
  then have a: "perf_counter_ns ?w = Some 42666"
    by (simp add: WaveStorage_init_def)
  have r: "framerate ?w = 48000" "nsampleswritten ?w = 2" "markers ?w = []"
    by (simp_all add: storage_eval)
  have "markers (addmarker_at_time ?w (42666 + 10000000) (str ''x''))
      = filter (keeps ?w) (markers ?w) @ [(nsampleswritten ?w + 480, str ''x'')]"
    using C5_marker_at_time [where s = ?w and a = 42666 and x = "str ''x''"] a r(1) by blast
  then show ?thesis by (simp add: r)
qed

subsection \<open>C6: the marker timeline\<close>

text \<open>
  Claim C6 says that every operation keeps each marker position at 0 or above and the
  positions non-decreasing in insertion order, also \<open>addmarker_at_time\<close> with a
  negative sample offset. The source appends \<open>nsampleswritten + sample_offset\<close> as it
  is. On \<open>anchored\<close>, a request 10 ms before the start of the first two frames lands at
  -480, after a marker at 2. A request 10 ms after the anchor lands at 482 and keeps the
  invariant, and the plain \<open>addmarker\<close> that follows it lands at 2 again and breaks it.
\<close>

theorem C6_marker_order_counterexample:
  "timeline_ok (markers anchored)
   \<and> markers (addmarker_at_time anchored 4990000000 (str ''b''))
       = [(2, str ''a''), (- 480, str ''b'')]
   \<and> \<not> timeline_ok (markers (addmarker_at_time anchored 4990000000 (str ''b'')))
   \<and> markers (addmarker_at_time anchored 5010041666 (str ''p''))
       = [(2, str ''a''), (482, str ''p'')]
   \<and> timeline_ok (markers (addmarker_at_time anchored 5010041666 (str ''p'')))
   \<and> markers (addmarker (addmarker_at_time anchored 5010041666 (str ''p'')) (str ''c''))
       = [(2, str ''a''), (482, str ''p''), (2, str ''c'')]
   \<and> \<not> timeline_ok
         (markers (addmarker (addmarker_at_time anchored 5010041666 (str ''p'')) (str ''c'')))"
  by (simp add: anchored_def timeline_ok_def storage_eval del: str_def)

text \<open>
  Claim C6 as amended. On a storage whose marker timeline is in order, pruning keeps it in
  order, and so does a write that is frame-aligned or raises at once. \<open>addmarker\<close>, the
  marker of a misaligned write and \<open>addmarker_at_time\<close> append a marker at a position
  \<open>p\<close>, the frame counter or, with an anchor, the frame counter plus the sample offset,
  and prune; the timeline is in order afterwards exactly when the new marker is pruned at
  once or \<open>p\<close> is not negative and no retained marker lies above it. The frame counter
  itself is never pruned.
\<close>

theorem C6_marker_timeline:
  assumes "timeline_ok (markers s)"
  shows "timeline_ok (markers (remove_old_markers s))
       \<and> timeline_ok (markers (snd (write_storage s d t)))
           = (framesize s = 0 \<or> length d mod framesize s = 0
              \<or> appends_ok s (nsampleswritten s))
       \<and> timeline_ok (markers (addmarker s x)) = appends_ok s (nsampleswritten s)
       \<and> (perf_counter_ns s = None \<longrightarrow>
            timeline_ok (markers (addmarker_at_time s u x)) = appends_ok s (nsampleswritten s))
       \<and> (perf_counter_ns s = Some a \<longrightarrow>
            timeline_ok (markers (addmarker_at_time s u x))
              = (\<not> keeps s (nsampleswritten s + (u - a) * int (framerate s) div 1000000000, x)
                 \<or> appends_ok s
                      (nsampleswritten s + (u - a) * int (framerate s) div 1000000000)))"
proof -
  have 1: "timeline_ok (markers (remove_old_markers s))"
    using assms by (simp add: markers_remove_old timeline_ok_filter)
  have 3: "timeline_ok (markers (addmarker s x)) = appends_ok s (nsampleswritten s)" for x
    using assms by (rule timeline_addmarker)
  have 2: "timeline_ok (markers (snd (write_storage s d t)))
      = (framesize s = 0 \<or> length d mod framesize s = 0 \<or> appends_ok s (nsampleswritten s))"
    using assms by (auto simp: markers_write_storage 3)
  have 4: "timeline_ok (markers (addmarker_at_time s u x)) = appends_ok s (nsampleswritten s)"
    if "perf_counter_ns s = None"
    using that by (simp add: addmarker_at_time_def 3)
  have 5: "timeline_ok (markers (addmarker_at_time s u x))
      = (\<not> keeps s (nsampleswritten s + (u - a) * int (framerate s) div 1000000000, x)
         \<or> appends_ok s (nsampleswritten s + (u - a) * int (framerate s) div 1000000000))"
    if "perf_counter_ns s = Some a"
    using that timeline_ok_append_pruned [OF assms]
    by (simp add: markers_addmarker_at_time)
  from 1 2 3 4 5 show ?thesis by blast
qed

theorem C6_marker_timeline_witness:
  "markers (addmarker_at_time anchored1000 5010833333 (str ''b''))
     = [(0, str ''a''), (520, str ''b'')]
   \<and> timeline_ok (markers (addmarker_at_time anchored1000 5010833333 (str ''b'')))
   \<and> timeline_ok (markers (remove_old_markers anchored1000))
   \<and> timeline_ok (markers (addmarker anchored1000 (str ''c'')))
   \<and> timeline_ok (markers (snd (write_storage anchored1000 [1, 2, 3] None)))"
proof -
  have ok: "timeline_ok (markers anchored1000)"
    by (simp add: anchored1000_fields timeline_ok_def)
  have off: "(5010833333 - 5020833333) * int (framerate anchored1000) div 1000000000 = - 480"
    by (simp add: anchored1000_fields)
  have ap: "appends_ok anchored1000 (nsampleswritten anchored1000 + - 480)"
      "appends_ok anchored1000 (nsampleswritten anchored1000)"
    by (simp_all add: appends_ok_def anchored1000_fields keeps_def)
  have m: "markers (addmarker_at_time anchored1000 5010833333 (str ''b''))
     = [(0, str ''a''), (520, str ''b'')]"
    by (simp add: markers_addmarker_at_time anchored1000_fields keeps_def del: str_def)
  from C6_marker_timeline [OF ok, where a = 5020833333 and u = 5010833333 and x = "str ''b''"
        and d = "[1, 2, 3]" and t = None]
    C6_marker_timeline [OF ok, where x = "str ''c''"] off ap m
  show ?thesis
    by (simp add: anchored1000_fields)
qed


subsection \<open>C4: the cue and label chunks\<close>

text \<open>
  Claim C4 says that \<open>getwavecuedata\<close> discards the markers below the retained window
  and emits a \<open>cue\<close> chunk and a \<open>LIST\<close> chunk for the others. Every field is packed
  as an unsigned 32-bit value, so for the retained marker at -480 of \<open>anchored\<close>
  \<open>struct.pack\<close> raises and nothing is emitted.
\<close>

theorem C4_negative_position_counterexample:
  "markers (addmarker_at_time anchored 4990000000 (str ''b''))
     = [(2, str ''a''), (- 480, str ''b'')]
   \<and> fst (getwavecuedata (addmarker_at_time anchored 4990000000 (str ''b''))) = Inl StructError"
  by (simp add: getwavecuedata_def bytes_of_def le32_def utf8_char_def anchored_def storage_eval)

text \<open>
  Claim C4 as amended. \<open>getwavecuedata\<close> first discards every marker below
  \<open>nsampleswritten - maxframes\<close>, so that such a marker is not in the output. When every
  id, position, sample offset and chunk size fits an unsigned 32-bit field and every label
  can be encoded (\<open>cue_fits\<close>), it returns a \<open>cue\<close> chunk with one cue point for each
  retained marker, numbered from 1 in order, whose sample offset is the position minus
  \<open>max (nsampleswritten - maxframes) 0\<close>, followed by a \<open>LIST\<close> chunk of type
  \<open>adtl\<close> with one \<open>labl\<close> sub-chunk for each marker, holding the label in UTF-8,
  ended by NUL and padded to an even length. It returns these bytes in no other case.
\<close>


theorem C4_cue_chunk:
  "snd (getwavecuedata s) = remove_old_markers s
   \<and> markers (snd (getwavecuedata s)) = filter (keeps s) (markers s)
   \<and> map snd (numbered_markers s) = markers (snd (getwavecuedata s))
   \<and> map fst (numbered_markers s) = [1 ..< Suc (length (markers (snd (getwavecuedata s))))]
   \<and> (cue_fits (first_retained s) (numbered_markers s) \<longrightarrow>
        fst (getwavecuedata s) = Inr (cue_chunk_bytes s @ list_chunk_bytes s))
   \<and> (\<not> cue_fits (first_retained s) (numbered_markers s) \<longrightarrow>
        isl (fst (getwavecuedata s)))"
  using getwavecuedata_fits [of s] getwavecuedata_fails [of s]
  by (simp add: getwavecuedata_state markers_remove_old numbered_markers_def
      map_fst_enumerate map_snd_enumerate)

theorem C4_cue_chunk_witness:
  "fst (getwavecuedata cue_example) =
     Inr (bytes_of ''cue '' @ [28, 0, 0, 0] @ [1, 0, 0, 0]
          @ [1, 0, 0, 0] @ [2, 0, 0, 0] @ bytes_of ''data'' @ [0, 0, 0, 0] @ [0, 0, 0, 0]
          @ [0, 0, 0, 0]
          @ bytes_of ''LIST'' @ [20, 0, 0, 0] @ bytes_of ''adtl''
          @ bytes_of ''labl'' @ [8, 0, 0, 0] @ [1, 0, 0, 0] @ [98, 99, 0, 0])
   \<and> markers (snd (getwavecuedata cue_example)) = [(2, str ''bc'')]"
proof -
  have nm: "numbered_markers cue_example = [(1, 2, str ''bc'')]"
    by (simp add: numbered_markers_def cue_example_fields keeps_def del: str_def)
  have ff: "first_retained cue_example = 2"
    by (simp add: first_retained_def cue_example_fields)
  have enc: "encode_utf8 (str ''bc'') = Inr [98, 99]"
    by (simp add: str_def utf8_char_def)
  have fits: "cue_fits (first_retained cue_example) (numbered_markers cue_example)"
    by (simp add: nm ff cue_fits_def marker_fits_def u32_def enc pad_label_def
        cue_point_bytes_def labl_bytes_def utf8_def bytes_of_def del: str_def)
  from C4_cue_chunk [of cue_example] fits
  have "fst (getwavecuedata cue_example)
      = Inr (cue_chunk_bytes cue_example @ list_chunk_bytes cue_example)"
    and "markers (snd (getwavecuedata cue_example))
      = filter (keeps cue_example) (markers cue_example)"
    by blast+
  then show ?thesis
    by (simp add: cue_chunk_bytes_def list_chunk_bytes_def nm ff cue_point_bytes_def
        labl_bytes_def utf8_def enc pad_label_def le32_def cue_example_fields keeps_def
        del: str_def)
qed

subsection \<open>C1: idle entries of the tracker\<close>

text \<open>
  Claim C1. After a non-empty block of any stream is processed, every entry whose
  last-active time is older than the retention window is removed from \<open>_players\<close>.
  The sweep tests \<open>lastActivePerfCounter - now > _max_duration_sec\<close> (line 105), a
  difference that is never positive, so it removes nothing: in \<open>two_feeds\<close> stream 7
  was last active at 2 seconds, the sweep of the block of stream 8 runs at 1006 seconds
  with a retention of 80, and stream 7 is still tracked.
\<close>

theorem C1_idle_entry_survives:
  "map (\<lambda>(k, v). (k, lastActivePerfCounter v)) (players two_feeds) = [(7, 2), (8, 1005)]
   \<and> reads two_feeds = 7 \<and> clock_jump 6 = 1006 \<and> max_duration_sec two_feeds = 80
   \<and> call_log two_feeds =
       [Fed 7 (Some [1, 2, 3, 4]) (Some 4), Acquired 7, Wrote 7 [1, 2, 3, 4], Released 7,
        Fed 7 (Some [5, 6]) (Some 2), Acquired 7, Wrote 7 [5, 6], Released 7,
        Fed 8 (Some [7, 8]) (Some 2), Acquired 8, Wrote 8 [7, 8], Released 8]"
  by (simp add: two_feeds_def tracker_eval storage_eval upt_rec slice_def)

subsection \<open>C9: saving a recorder that has no storage\<close>

text \<open>
  Claim C9. \<open>savetofile\<close> of a recorder whose storage was never created raises
  \<open>ValueError("No wave storage")\<close>, which is not the \<open>OSError\<close> of a file that cannot
  be opened, and touches neither the recorder nor a file. When the storage exists, the
  call is the storage's own \<open>savetofile\<close>: the same exception or none, the same files,
  and the storage as that call leaves it. A new recorder has no storage.
\<close>

theorem C9_save_without_storage:
  "(wavestorage r = None \<longrightarrow>
      recorder_savetofile wave r fs path
        = (Some (ValueError (str ''No wave storage'')), r, fs))
   \<and> ValueError (str ''No wave storage'') \<noteq> OSError
   \<and> (wavestorage r = Some ws \<longrightarrow>
        fst (recorder_savetofile wave r fs path) = fst (savetofile wave ws fs path)
        \<and> snd (snd (recorder_savetofile wave r fs path)) = snd (snd (savetofile wave ws fs path))
        \<and> fst (snd (recorder_savetofile wave r fs path))
            = r\<lparr>wavestorage := Some (fst (snd (savetofile wave ws fs path)))\<rparr>)
   \<and> (denied fs path \<longrightarrow> savetofile wave ws fs path = (Some OSError, ws, fs))
   \<and> wavestorage (SystemAudioRecorder_init maxd) = None
   \<and> wavestorage (reset r) = None"
  by (simp add: recorder_savetofile_def savetofile_def SystemAudioRecorder_init_def reset_def
      split: prod.split)

theorem C9_save_without_storage_witness:
  "recorder_savetofile wave_write (SystemAudioRecorder_init 60) one_locked ''out.wav''
     = (Some (ValueError (str ''No wave storage'')), SystemAudioRecorder_init 60, one_locked)
   \<and> fst (recorder_savetofile wave_write capturing one_locked ''/locked.wav'') = Some OSError
   \<and> files (snd (snd (recorder_savetofile wave_write capturing one_locked ''/locked.wav'')))
        ''/locked.wav'' = None
   \<and> fst (recorder_savetofile wave_write capturing one_locked ''out.wav'') = None
   \<and> map_option length
        (files (snd (snd (recorder_savetofile wave_write capturing one_locked ''out.wav'')))
           ''out.wav'') = Some 112"
proof -
  have n: "wavestorage (SystemAudioRecorder_init 60) = None"
    "wavestorage capturing = Some cue_example"
    by (simp_all add: SystemAudioRecorder_init_def capturing_def)
  have d: "denied one_locked ''/locked.wav''" "files one_locked ''/locked.wav'' = None"
    by (simp_all add: one_locked_def)
  have a: "recorder_savetofile wave_write (SystemAudioRecorder_init 60) one_locked ''out.wav''
     = (Some (ValueError (str ''No wave storage'')), SystemAudioRecorder_init 60, one_locked)"
    using C9_save_without_storage [where r = "SystemAudioRecorder_init 60"
        and wave = wave_write and fs = one_locked and path = "''out.wav''"] n
    by blast
  have b: "fst (recorder_savetofile wave_write capturing one_locked ''/locked.wav'') = Some OSError"
    "files (snd (snd (recorder_savetofile wave_write capturing one_locked ''/locked.wav'')))
        ''/locked.wav'' = None"
    using C9_save_without_storage [where r = capturing and ws = cue_example
        and wave = wave_write and fs = one_locked and path = "''/locked.wav''"] n d
    by simp_all
  have c: "fst (recorder_savetofile wave_write capturing one_locked ''out.wav'') = None"
    "map_option length
        (files (snd (snd (recorder_savetofile wave_write capturing one_locked ''out.wav'')))
           ''out.wav'') = Some 112"
    using C9_save_without_storage [where r = capturing and ws = cue_example
        and wave = wave_write and fs = one_locked and path = "''out.wav''"] n
    by (simp_all add: save_cue_example)
  from a b c show ?thesis by simp
qed

end
